theory Spec2Isabelle
  imports Main "HOL-Library.AList"
begin

section \<open>Values, dictionaries, errors\<close>

text \<open>
  The module works on the JSON-like values of the CloudStack API: Python's None, booleans,
  integers, strings, lists and dictionaries. A dictionary is an association list; a key is
  looked up with \<open>map_of\<close> and a dictionary is truthy when it is not empty.
\<close>

datatype jval =
    JNone
  | JBool bool
  | JInt int
  | JStr string
  | JList "jval list"
  | JDict "(string \<times> jval) list"

type_synonym dict = "(string \<times> jval) list"

text \<open>
  Every way the module stops early is a value: \<open>FailJson\<close> is a call of \<open>fail_json\<close>
  with its message (it exits the process), \<open>RemoteError\<close> is a failure reported by the API
  client, and the remaining constructors are the Python exceptions that the dictionary
  and string operations of the source raise.
\<close>

datatype error =
    FailJson string
  | RemoteError string
  | PyKeyError string
  | PyIndexError
  | PyTypeError
  | PyAttributeError

text \<open>\<open>str.lower()\<close> on the ASCII letters: every other character is kept.\<close>

definition lower_char :: "char \<Rightarrow> char" where
  "lower_char c =
     (case map_of (zip ''ABCDEFGHIJKLMNOPQRSTUVWXYZ'' ''abcdefghijklmnopqrstuvwxyz'') c of
        None \<Rightarrow> c
      | Some l \<Rightarrow> l)"

definition lower :: "string \<Rightarrow> string" where
  "lower s = map lower_char s"

definition quoted :: "string \<Rightarrow> string" where
  "quoted s = [CHR 0x27] @ s @ [CHR 0x27]"

text \<open>\<open>'%s' % x\<close> for an optional string parameter: None prints as \<open>None\<close>.\<close>

definition fmt :: "string option \<Rightarrow> string" where
  "fmt x = (case x of None \<Rightarrow> ''None'' | Some s \<Rightarrow> s)"

definition ostr :: "string option \<Rightarrow> jval" where
  "ostr x = (case x of None \<Rightarrow> JNone | Some s \<Rightarrow> JStr s)"

definition oint :: "int option \<Rightarrow> jval" where
  "oint x = (case x of None \<Rightarrow> JNone | Some i \<Rightarrow> JInt i)"

text \<open>Truthiness of a value that is None or a dictionary (\<open>if k8s:\<close>).\<close>

definition truthy :: "dict option \<Rightarrow> bool" where
  "truthy k = (case k of None \<Rightarrow> False | Some d \<Rightarrow> d \<noteq> [])"

section \<open>Module parameters\<close>

datatype lifecycle = Present | Enabled | Disabled | Absent

record docker_registry =
  url :: "string option"
  username :: "string option"
  password :: "string option"

text \<open>
  \<open>module.params\<close> and \<open>module.check_mode\<close>. \<open>name\<close> and \<open>zone\<close> are required by the
  argument spec; every other parameter may be None. \<open>p_id\<close> is what
  \<open>module.params.get('id')\<close> returns.
\<close>

record params =
  p_id :: "string option"
  p_name :: string
  p_zone :: string
  p_description :: "string option"
  p_service_offering :: "string option"
  p_size :: "int option"
  p_version :: "string option"
  p_docker_registry :: "docker_registry option"
  p_control_nodes :: "int option"
  p_load_balancer :: "string option"
  p_ssh_key :: "string option"
  p_root_disk :: "int option"
  p_state :: lifecycle
  p_poll_async :: bool
  check_mode :: bool

section \<open>Calls, the remote side and the module state\<close>

text \<open>A call of the API: the command name and its keyword arguments.\<close>

datatype call = Call string dict

text \<open>
  The external collaborators. \<open>e_api\<close> is the API gateway: given the calls issued so far
  (the history determines the state of a deterministic remote system), a command and its
  arguments, it answers with a response dictionary or an error. \<open>e_poll\<close> is the job
  polling primitive \<open>poll_job(job, key)\<close>. The five \<open>e_get_*\<close> fields are the results
  of the base class resolvers \<open>get_account(key='id')\<close>, \<open>get_domain(key='id')\<close>,
  \<open>get_network(key='id')\<close>, \<open>get_project(key='id')\<close> and \<open>get_zone(key='id')\<close>, which
  belong to \<open>module_utils/cloudstack.py\<close> and only read from the remote side.
\<close>

record env =
  e_api :: "call list \<Rightarrow> string \<Rightarrow> dict \<Rightarrow> error + dict"
  e_poll :: "call list \<Rightarrow> dict \<Rightarrow> string \<Rightarrow> error + dict"
  e_get_account :: "error + jval"
  e_get_domain :: "error + jval"
  e_get_network :: "error + jval"
  e_get_project :: "error + jval"
  e_get_zone :: "error + jval"

text \<open>
  The fields of \<open>AnsibleCloudStackKubernetes\<close> that the module reads and writes:
  the three caches \<open>self.k8s\<close>, \<open>self.version\<close>, \<open>self.service_offering\<close>, the flag
  \<open>self.result['changed']\<close>, the other entries of \<open>self.result\<close>, and the calls issued.
\<close>

record st =
  k8s :: "dict option"
  version :: "dict option"
  service_offering :: "dict option"
  changed :: bool
  result :: dict
  trace :: "call list"

definition init :: "call list \<Rightarrow> st" where
  "init tr = \<lparr>k8s = None, version = None, service_offering = None, changed = False,
     result = [], trace = tr\<rparr>"

text \<open>
  A method of the class is a function from the state to an outcome and the new state.
  The state is kept when the method fails, so that the calls issued before a failure
  remain visible.
\<close>

type_synonym 'a m = "st \<Rightarrow> (error + 'a) \<times> st"

definition ret :: "'a \<Rightarrow> 'a m" where
  "ret x s = (Inr x, s)"

definition raise :: "error \<Rightarrow> 'a m" where
  "raise e s = (Inl e, s)"

definition thn :: "'a m \<Rightarrow> ('a \<Rightarrow> 'b m) \<Rightarrow> 'b m" where
  "thn f g s = (case f s of (Inl e, s') \<Rightarrow> (Inl e, s') | (Inr x, s') \<Rightarrow> g x s')"

definition lift :: "error + 'a \<Rightarrow> 'a m" where
  "lift r s = (r, s)"

text \<open>Reading a field of the object.\<close>

definition gets :: "(st \<Rightarrow> 'a) \<Rightarrow> 'a m" where
  "gets f s = (Inr (f s), s)"

definition set_changed :: "unit m" where
  "set_changed s = (Inr (), s\<lparr>changed := True\<rparr>)"

definition set_k8s :: "dict option \<Rightarrow> unit m" where
  "set_k8s k s = (Inr (), s\<lparr>k8s := k\<rparr>)"

text \<open>
  Modelled from the spec: \<open>query_api\<close> of the base class (\<open>module_utils/cloudstack.py\<close>)
  is not among the sources. By the spec it is \<open>call(operationName, params)\<close>, which
  returns the response or raises; the call is recorded whether it succeeds or not.
\<close>

definition query_api :: "env \<Rightarrow> string \<Rightarrow> dict \<Rightarrow> dict m" where
  "query_api ev cmd args s =
     (e_api ev (trace s) cmd args, s\<lparr>trace := trace s @ [Call cmd args]\<rparr>)"

text \<open>
  Modelled from the spec: \<open>poll_job\<close> of the base class is not among the sources. By the
  spec it is \<open>pollJob(jobResponse, resultKey)\<close>, which returns the final record or raises.
\<close>

definition poll_job :: "env \<Rightarrow> dict \<Rightarrow> string \<Rightarrow> dict m" where
  "poll_job ev job key s = (e_poll ev (trace s) job key, s)"

text \<open>\<open>d[key]\<close>, which raises KeyError on a missing key.\<close>

definition getitem :: "dict \<Rightarrow> string \<Rightarrow> error + jval" where
  "getitem d key = (case map_of d key of None \<Rightarrow> Inl (PyKeyError key) | Some v \<Rightarrow> Inr v)"

text \<open>
  Modelled from the spec: \<open>_get_by_key\<close> of the base class is not among the sources. The
  spec's resolver returns the identifier of the entry it matched, so the model returns
  the entry's field \<open>key\<close> and fails when the entry has no such field.
\<close>

definition get_by_key :: "string \<Rightarrow> dict \<Rightarrow> jval m" where
  "get_by_key key d =
     (case map_of d key of
        None \<Rightarrow> raise (FailJson (''Something went wrong: '' @ key @ '' not found''))
      | Some v \<Rightarrow> ret v)"

section \<open>Reference resolver\<close>

text \<open>
  What a \<open>for\<close> loop iterates over: the elements of a list, the characters of a string,
  the keys of a dictionary; anything else is not iterable.
\<close>

fun iter_items :: "jval \<Rightarrow> error + jval list" where
  "iter_items (JList xs) = Inr xs"
| "iter_items (JStr s) = Inr (map (\<lambda>c. JStr [c]) s)"
| "iter_items (JDict d) = Inr (map (\<lambda>kv. JStr (fst kv)) d)"
| "iter_items _ = Inl PyTypeError"

text \<open>
  The loop of \<open>get_version\<close> and of \<open>get_service_offering\<close>:
  \<^verbatim>\<open>for v in entries: if wanted.lower() in [v['name'].lower(), v['id']]: ... return\<close>.
  It returns the first matching entry, None when the loop ends without a match, and the
  exception that an ill-formed entry or a missing parameter raises.
\<close>

fun find_entry :: "string option \<Rightarrow> jval list \<Rightarrow> error + dict option" where
  "find_entry wanted [] = Inr None"
| "find_entry wanted (v # vs) =
     (case wanted of
        None \<Rightarrow> Inl PyAttributeError
      | Some w \<Rightarrow>
          (case v of
             JDict d \<Rightarrow>
               (case map_of d ''name'' of
                  None \<Rightarrow> Inl (PyKeyError ''name'')
                | Some (JStr n) \<Rightarrow>
                    (case map_of d ''id'' of
                       None \<Rightarrow> Inl (PyKeyError ''id'')
                     | Some i \<Rightarrow>
                         if JStr (lower w) = JStr (lower n) \<or> JStr (lower w) = i
                         then Inr (Some d)
                         else find_entry wanted vs)
                | Some _ \<Rightarrow> Inl PyAttributeError)
           | _ \<Rightarrow> Inl PyTypeError))"

definition entries_of :: "dict \<Rightarrow> string \<Rightarrow> error + jval list" where
  "entries_of resp key =
     (case getitem resp key of Inl e \<Rightarrow> Inl e | Inr v \<Rightarrow> iter_items v)"

definition set_version :: "dict \<Rightarrow> jval \<Rightarrow> unit m" where
  "set_version v n s =
     (Inr (), s\<lparr>result := AList.update ''version'' n (result s), version := Some v\<rparr>)"

definition set_service_offering :: "dict \<Rightarrow> jval \<Rightarrow> unit m" where
  "set_service_offering v n s =
     (Inr (), s\<lparr>result := AList.update ''service_offering'' n (result s),
        service_offering := Some v\<rparr>)"

definition get_version :: "env \<Rightarrow> params \<Rightarrow> string \<Rightarrow> jval m" where
  "get_version ev p key =
     thn (gets version) (\<lambda>cached.
      if truthy cached then get_by_key key (the cached)
      else
        thn (query_api ev ''listKubernetesSupportedVersions'' []) (\<lambda>versions.
          if versions = []
          then raise (FailJson
                 ''No Kubernetes versions available. Please create a version first'')
          else
            thn (lift (entries_of versions ''kubernetessupportedversion'')) (\<lambda>vs.
            thn (lift (find_entry (p_version p) vs)) (\<lambda>found.
              case found of
                Some v \<Rightarrow>
                  thn (lift (getitem v ''name'')) (\<lambda>n.
                  thn (set_version v n) (\<lambda>_. get_by_key key v))
              | None \<Rightarrow>
                  raise (FailJson
                    (''version '' @ quoted (fmt (p_version p)) @ '' not found''))))))"

definition get_service_offering :: "env \<Rightarrow> params \<Rightarrow> string \<Rightarrow> jval m" where
  "get_service_offering ev p key =
     thn (gets service_offering) (\<lambda>cached.
      if truthy cached then get_by_key key (the cached)
      else
        thn (query_api ev ''listServiceOfferings'' []) (\<lambda>service_offerings.
          if service_offerings = []
          then raise (FailJson
                 ''No service offerings available. Please create a service offering first'')
          else
            thn (lift (entries_of service_offerings ''serviceoffering'')) (\<lambda>os.
            thn (lift (find_entry (p_service_offering p) os)) (\<lambda>found.
              case found of
                Some v \<Rightarrow>
                  thn (lift (getitem v ''name'')) (\<lambda>n.
                  thn (set_service_offering v n) (\<lambda>_. get_by_key key v))
              | None \<Rightarrow>
                  raise (FailJson
                    (''service offering '' @ quoted (fmt (p_service_offering p))
                       @ '' not found''))))))"

section \<open>Cluster state reader\<close>

text \<open>
  \<open>k8s['kubernetescluster'][0]\<close>: KeyError without the key, IndexError on an empty list.
  The API lists cluster records as a list of objects; a listing of any other shape is
  reported as a TypeError here, where the source would raise at a later subscript.
\<close>

definition first_cluster :: "dict \<Rightarrow> error + dict option" where
  "first_cluster resp =
     (case getitem resp ''kubernetescluster'' of
        Inl e \<Rightarrow> Inl e
      | Inr (JList []) \<Rightarrow> Inl PyIndexError
      | Inr (JList (JDict d # _)) \<Rightarrow> Inr (Some d)
      | Inr (JList (JNone # _)) \<Rightarrow> Inr None
      | Inr _ \<Rightarrow> Inl PyTypeError)"

text \<open>
  The second query of \<open>get_k8s\<close>: \<open>args['name'] = ...\<close> is added to the arguments built
  so far, the clusters are listed, and a non-empty response fills the cache.
\<close>

definition lookup_by_name :: "env \<Rightarrow> params \<Rightarrow> dict \<Rightarrow> dict option m" where
  "lookup_by_name ev p args =
     thn (query_api ev ''listKubernetesClusters''
            (AList.update ''name'' (JStr (p_name p)) args)) (\<lambda>r.
       if r \<noteq> []
       then thn (lift (first_cluster r)) (\<lambda>c. thn (set_k8s c) (\<lambda>_. gets k8s))
       else gets k8s)"

definition get_k8s :: "env \<Rightarrow> params \<Rightarrow> dict option m" where
  "get_k8s ev p =
     thn (gets k8s) (\<lambda>cached.
      if \<not> truthy cached then
        (case p_id p of
           None \<Rightarrow> lookup_by_name ev p []
         | Some uuid \<Rightarrow>
             if uuid = [] then lookup_by_name ev p []
             else
               thn (query_api ev ''listKubernetesClusters'' [(''id'', JStr uuid)]) (\<lambda>r.
                 if r \<noteq> []
                 then thn (lift (first_cluster r)) (\<lambda>c. thn (set_k8s c) (\<lambda>_. gets k8s))
                 else lookup_by_name ev p [(''id'', JStr uuid)]))
      else gets k8s)"

section \<open>Reconciler\<close>

text \<open>
  Modelled from the spec: \<open>has_changed\<close> of the base class is not among the sources. By
  the spec, field comparison is exact equality of the wanted value against the record's
  corresponding field, restricted to the keys of the group, and a field absent from the
  desired spec (None) is excluded from the comparison.
\<close>

definition has_changed :: "dict \<Rightarrow> dict \<Rightarrow> string list \<Rightarrow> bool" where
  "has_changed want current only_keys =
     list_ex (\<lambda>key.
        case map_of want key of
          None \<Rightarrow> False
        | Some JNone \<Rightarrow> False
        | Some v \<Rightarrow> map_of current key \<noteq> Some v) only_keys"

text \<open>
  \<open>fail_on_missing_params\<close> of Ansible: a required parameter counts as missing when its
  value is falsy (None, the empty string, zero).
\<close>

definition missing_params :: "params \<Rightarrow> string list" where
  "missing_params p =
     (if p_description p = None \<or> p_description p = Some [] then [''description''] else []) @
     (if p_name p = [] then [''name''] else []) @
     (if p_service_offering p = None \<or> p_service_offering p = Some []
      then [''service_offering''] else []) @
     (if p_size p = None \<or> p_size p = Some 0 then [''size''] else []) @
     (if p_version p = None \<or> p_version p = Some [] then [''version''] else []) @
     (if p_zone p = [] then [''zone''] else [])"

definition fail_on_missing_params :: "params \<Rightarrow> unit m" where
  "fail_on_missing_params p =
     (if missing_params p = [] then ret ()
      else raise (FailJson (''missing required arguments: ''
             @ concat (map (\<lambda>n. n @ '' '') (missing_params p)))))"

definition registry_of :: "params \<Rightarrow> docker_registry" where
  "registry_of p =
     (case p_docker_registry p of
        None \<Rightarrow> \<lparr>url = None, username = None, password = None\<rparr>
      | Some r \<Rightarrow> r)"

text \<open>The call and the optional poll that every mutating branch ends with.\<close>

definition call_and_poll :: "env \<Rightarrow> params \<Rightarrow> string \<Rightarrow> dict \<Rightarrow> dict m" where
  "call_and_poll ev p cmd args =
     thn (query_api ev cmd args) (\<lambda>r.
       if p_poll_async p then poll_job ev r ''kubernetescluster'' else ret r)"

text \<open>The keyword arguments of the create call, in the order of the dictionary literal.\<close>

definition create_args ::
  "params \<Rightarrow> jval \<Rightarrow> jval \<Rightarrow> jval \<Rightarrow> jval \<Rightarrow> jval \<Rightarrow> jval \<Rightarrow> jval \<Rightarrow> dict" where
  "create_args p account domainid kubernetesversionid networkid projectid serviceofferingid
      zoneid =
     (let docker_registry = registry_of p in
       [(''account'', account),
        (''controlnodes'', oint (p_control_nodes p)),
        (''description'', ostr (p_description p)),
        (''dockerregistrypassword'', ostr (password docker_registry)),
        (''dockerregistryurl'', ostr (url docker_registry)),
        (''dockerregistryusername'', ostr (username docker_registry)),
        (''domainid'', domainid),
        (''externalloadbalanceripaddress'', ostr (p_load_balancer p)),
        (''keypair'', ostr (p_ssh_key p)),
        (''kubernetesversionid'', kubernetesversionid),
        (''name'', JStr (p_name p)),
        (''networkid'', networkid),
        (''noderootdisksize'', oint (p_root_disk p)),
        (''projectid'', projectid),
        (''serviceofferingid'', serviceofferingid),
        (''size'', oint (p_size p)),
        (''zoneid'', zoneid)])"

definition create_k8s :: "env \<Rightarrow> params \<Rightarrow> dict option m" where
  "create_k8s ev p =
     thn (fail_on_missing_params p) (\<lambda>_.
     thn (lift (e_get_account ev)) (\<lambda>account.
     thn (lift (e_get_domain ev)) (\<lambda>domainid.
     thn (get_version ev p ''id'') (\<lambda>kubernetesversionid.
     thn (lift (e_get_network ev)) (\<lambda>networkid.
     thn (lift (e_get_project ev)) (\<lambda>projectid.
     thn (get_service_offering ev p ''id'') (\<lambda>serviceofferingid.
     thn (lift (e_get_zone ev)) (\<lambda>zoneid.
     let args = create_args p account domainid kubernetesversionid networkid projectid
                  serviceofferingid zoneid in
     thn set_changed (\<lambda>_.
       if \<not> check_mode p
       then thn (call_and_poll ev p ''createKubernetesCluster'' args) (\<lambda>r. ret (Some r))
       else ret None)))))))))"

text \<open>\<open>k8s['id']\<close> for a value that is None or a dictionary.\<close>

definition id_of :: "dict option \<Rightarrow> error + jval" where
  "id_of k = (case k of None \<Rightarrow> Inl PyTypeError | Some d \<Rightarrow> getitem d ''id'')"

text \<open>The dictionary \<open>args\<close> that \<open>_update_k8s\<close> compares with the record.\<close>

definition update_args :: "params \<Rightarrow> jval \<Rightarrow> jval \<Rightarrow> jval \<Rightarrow> dict" where
  "update_args p i vid oid =
     [(''id'', i), (''kubernetesversionid'', vid), (''serviceofferingid'', oid),
      (''size'', oint (p_size p))]"

text \<open>
  The version group of \<open>_update_k8s\<close>: the first \<open>if self.has_changed(...)\<close> block. It
  returns the value of the local variable \<open>k8s\<close> after the block; \<open>i\<close> is \<open>args['id']\<close>.
\<close>

definition version_group :: "env \<Rightarrow> params \<Rightarrow> dict \<Rightarrow> dict \<Rightarrow> jval \<Rightarrow> dict m" where
  "version_group ev p args k0 i =
     (if has_changed args k0 [''kubernetesversionid'']
      then thn set_changed (\<lambda>_.
             if \<not> check_mode p
             then thn (get_version ev p ''id'') (\<lambda>vid'.
                    call_and_poll ev p ''upgradeKubernetesCluster''
                      [(''id'', i), (''kubernetesversionid'', vid')])
             else ret k0)
      else ret k0)"

text \<open>The scale group: the second block, run on the value that the first block left.\<close>

definition scale_group :: "env \<Rightarrow> params \<Rightarrow> dict \<Rightarrow> dict \<Rightarrow> jval \<Rightarrow> dict m" where
  "scale_group ev p args k1 i =
     (if has_changed args k1 [''serviceofferingid'', ''size'']
      then thn set_changed (\<lambda>_.
             if \<not> check_mode p
             then thn (get_service_offering ev p ''id'') (\<lambda>oid'.
                    call_and_poll ev p ''scaleKubernetesCluster''
                      [(''id'', i), (''serviceofferingid'', oid'),
                       (''size'', oint (p_size p))])
             else ret k1)
      else ret k1)"

definition update_k8s :: "env \<Rightarrow> params \<Rightarrow> dict option m" where
  "update_k8s ev p =
     thn (get_k8s ev p) (\<lambda>k.
     thn (lift (id_of k)) (\<lambda>i.
     thn (get_version ev p ''id'') (\<lambda>vid.
     thn (get_service_offering ev p ''id'') (\<lambda>oid.
     let args = update_args p i vid oid in
     thn (version_group ev p args (the k) i) (\<lambda>k1.
     thn (scale_group ev p args k1 i) (\<lambda>k2. ret (Some k2)))))))"

text \<open>\<open>k8s['state'].lower()\<close>: KeyError without the key, AttributeError on a non-string.\<close>

definition state_lower :: "dict \<Rightarrow> error + string" where
  "state_lower d =
     (case map_of d ''state'' of
        None \<Rightarrow> Inl (PyKeyError ''state'')
      | Some (JStr t) \<Rightarrow> Inr (lower t)
      | Some _ \<Rightarrow> Inl PyAttributeError)"

definition start_k8s :: "env \<Rightarrow> params \<Rightarrow> dict option m" where
  "start_k8s ev p =
     thn (get_k8s ev p) (\<lambda>k.
       if truthy k then
         thn (lift (state_lower (the k))) (\<lambda>t.
           if t \<in> set [''starting'', ''running''] then ret k
           else if t \<in> set [''stopped'', ''stopping''] then
             thn set_changed (\<lambda>_.
               if \<not> check_mode p
               then thn (lift (getitem (the k) ''id'')) (\<lambda>i.
                    thn (call_and_poll ev p ''startKubernetesCluster'' [(''id'', i)])
                      (\<lambda>r. ret (Some r)))
               else ret k)
           else ret k)
       else ret k)"

definition stop_k8s :: "env \<Rightarrow> params \<Rightarrow> dict option m" where
  "stop_k8s ev p =
     thn (get_k8s ev p) (\<lambda>k.
       if truthy k then
         thn (lift (state_lower (the k))) (\<lambda>t.
           if t \<in> set [''stopping'', ''stopped''] then ret k
           else if t \<in> set [''starting'', ''running''] then
             thn set_changed (\<lambda>_.
               if \<not> check_mode p
               then thn (lift (getitem (the k) ''id'')) (\<lambda>i.
                    thn (call_and_poll ev p ''stopKubernetesCluster'' [(''id'', i)])
                      (\<lambda>r. ret (Some r)))
               else ret k)
           else ret k)
       else ret k)"

definition absent_k8s :: "env \<Rightarrow> params \<Rightarrow> dict option m" where
  "absent_k8s ev p =
     thn (get_k8s ev p) (\<lambda>k.
       if truthy k then
         thn set_changed (\<lambda>_.
           if \<not> check_mode p
           then thn (lift (getitem (the k) ''id'')) (\<lambda>i.
                thn (call_and_poll ev p ''deleteKubernetesCluster'' [(''id'', i)])
                  (\<lambda>r. ret (Some r)))
           else ret k)
       else ret k)"

section \<open>Config fetcher\<close>

text \<open>\<open>config['clusterconfig']['configdata']\<close>.\<close>

definition configdata_of :: "dict \<Rightarrow> error + jval" where
  "configdata_of config =
     (case map_of config ''clusterconfig'' of
        Some (JDict c) \<Rightarrow> getitem c ''configdata''
      | _ \<Rightarrow> Inl PyTypeError)"

definition k8s_config :: "env \<Rightarrow> params \<Rightarrow> dict option m" where
  "k8s_config ev p =
     thn (get_k8s ev p) (\<lambda>k.
       if truthy k \<and> map_of (the k) ''config'' = None then
         thn (lift (getitem (the k) ''id'')) (\<lambda>i.
         thn (query_api ev ''getKubernetesClusterConfig'' [(''id'', i)]) (\<lambda>config.
           if config \<noteq> [] \<and> map_of config ''clusterconfig'' \<noteq> None
           then thn (lift (configdata_of config)) (\<lambda>c.
                let k' = Some (AList.update ''config'' c (the k)) in
                thn (set_k8s k') (\<lambda>_. ret k'))
           else ret k))
       else ret k)"

section \<open>Presence and the entry point\<close>

definition present_k8s :: "env \<Rightarrow> params \<Rightarrow> dict option m" where
  "present_k8s ev p =
     thn (get_k8s ev p) (\<lambda>k.
     thn (if truthy k then update_k8s ev p else create_k8s ev p) (\<lambda>k'.
       if truthy k' then thn (set_k8s k') (\<lambda>_. k8s_config ev p) else ret k'))"

text \<open>
  The final check of \<open>main\<close>:
  \<^verbatim>\<open>if k8s and 'state' in k8s and k8s['state'].lower() == 'error': fail_json(...)\<close>.
\<close>

definition final_check :: "params \<Rightarrow> dict option \<Rightarrow> dict option m" where
  "final_check p k =
     (if truthy k \<and> map_of (the k) ''state'' \<noteq> None then
        thn (lift (state_lower (the k))) (\<lambda>t.
          if t = ''error''
          then raise (FailJson (''Kubernetes cluster named '' @ quoted (p_name p)
                  @ '' in error state.''))
          else ret k)
      else ret k)"

text \<open>The reconciliation steps of \<open>main\<close>, before the final check.\<close>

definition steps :: "env \<Rightarrow> params \<Rightarrow> dict option m" where
  "steps ev p =
     (if p_state p \<in> set [Absent] then absent_k8s ev p
      else thn (present_k8s ev p) (\<lambda>_.
             if p_state p \<in> set [Disabled] then stop_k8s ev p else start_k8s ev p))"

text \<open>
  \<open>main\<close> without argument parsing and without the projection of the result: it returns
  the record handed to \<open>get_result\<close>, or the failure.
\<close>

definition main :: "env \<Rightarrow> params \<Rightarrow> dict option m" where
  "main ev p = thn (steps ev p) (final_check p)"

text \<open>The calls that change the remote side.\<close>

definition mutating :: "call \<Rightarrow> bool" where
  "mutating c =
     (case c of Call cmd _ \<Rightarrow>
        cmd \<in> set [''createKubernetesCluster'', ''upgradeKubernetesCluster'',
          ''scaleKubernetesCluster'', ''startKubernetesCluster'',
          ''stopKubernetesCluster'', ''deleteKubernetesCluster''])"

section \<open>Vocabulary of the properties\<close>


text \<open>
  A method is quiet when it issues no mutating call and leaves the changed flag as it
  was, whatever its outcome.
\<close>

definition quiet :: "'a m \<Rightarrow> bool" where
  "quiet f = (\<forall>s. filter mutating (trace (snd (f s))) = filter mutating (trace s)
                 \<and> changed (snd (f s)) = changed s)"

text \<open>The two groups of states that \<open>start_k8s\<close> and \<open>stop_k8s\<close> test for.\<close>

definition starting_running :: "string \<Rightarrow> bool" where
  "starting_running t = (lower t \<in> set [''starting'', ''running''])"

definition stopped_stopping :: "string \<Rightarrow> bool" where
  "stopped_stopping t = (lower t \<in> set [''stopped'', ''stopping''])"

text \<open>
  A method keeps the calls selected by \<open>P\<close> when the calls of the history that satisfy
  \<open>P\<close> are the same before and after it, whatever its outcome: it issues no such call.
\<close>

definition keeps :: "(call \<Rightarrow> bool) \<Rightarrow> 'a m \<Rightarrow> bool" where
  "keeps P f = (\<forall>s. filter P (trace (snd (f s))) = filter P (trace s))"

definition cmd_of :: "call \<Rightarrow> string" where
  "cmd_of c = (case c of Call cmd _ \<Rightarrow> cmd)"

text \<open>The calls whose command is not one of \<open>cmds\<close>.\<close>

definition other_than :: "string list \<Rightarrow> call \<Rightarrow> bool" where
  "other_than cmds c = (cmd_of c \<notin> set cmds)"

text \<open>
  The state in which \<open>_update_k8s\<close> starts to compare: the version and the service
  offering have been resolved, in this order, from the state \<open>s\<close>.
\<close>

definition resolved :: "env \<Rightarrow> params \<Rightarrow> st \<Rightarrow> st" where
  "resolved ev p s =
     snd (get_service_offering ev p ''id'' (snd (get_version ev p ''id'' s)))"

text \<open>The upgrade call and the scale call of \<open>_update_k8s\<close>.\<close>

definition upgrade_call :: "jval \<Rightarrow> jval \<Rightarrow> call" where
  "upgrade_call i vid =
     Call ''upgradeKubernetesCluster'' [(''id'', i), (''kubernetesversionid'', vid)]"

definition scale_call :: "params \<Rightarrow> jval \<Rightarrow> jval \<Rightarrow> call" where
  "scale_call p i oid =
     Call ''scaleKubernetesCluster''
       [(''id'', i), (''serviceofferingid'', oid), (''size'', oint (p_size p))]"

text \<open>
  A postcondition of a method: what holds of the result and of the state whenever the
  method returns normally.
\<close>

definition ensures :: "('a \<Rightarrow> st \<Rightarrow> bool) \<Rightarrow> 'a m \<Rightarrow> bool" where
  "ensures Q f = (\<forall>s. case f s of (Inl e, s') \<Rightarrow> True | (Inr x, s') \<Rightarrow> Q x s')"

text \<open>The create calls of a history.\<close>

definition is_create :: "call \<Rightarrow> bool" where
  "is_create c = (cmd_of c = ''createKubernetesCluster'')"






section \<open>A simulated remote side\<close>

text \<open>
  A small deterministic remote system, used to run the module on concrete inputs. It
  holds at most one cluster; the cluster it holds after a history of calls is obtained by
  applying the mutating calls of the history in order.
\<close>

definition demo_versions :: dict where
  "demo_versions = [(''count'', JInt 2), (''kubernetessupportedversion'',
     JList [JDict [(''id'', JStr ''v-1''), (''name'', JStr ''v1.27.3'')],
            JDict [(''id'', JStr ''v-2''), (''name'', JStr ''v1.28.4'')]])]"

definition demo_offerings :: dict where
  "demo_offerings = [(''count'', JInt 1), (''serviceoffering'',
     JList [JDict [(''id'', JStr ''o-1''), (''name'', JStr ''CH23'')]])]"

definition demo_cluster :: "string \<Rightarrow> dict" where
  "demo_cluster t = [(''id'', JStr ''c-1''), (''name'', JStr ''k8s-cluster-01''),
     (''state'', JStr t), (''kubernetesversionid'', JStr ''v-1''),
     (''serviceofferingid'', JStr ''o-1''), (''size'', JInt 4)]"

fun apply_call :: "dict option \<Rightarrow> call \<Rightarrow> dict option" where
  "apply_call c (Call cmd args) =
     (if cmd = ''createKubernetesCluster'' then
        Some [(''id'', JStr ''c-1''), (''name'', the (map_of args ''name'')),
          (''state'', JStr ''Running''),
          (''kubernetesversionid'', the (map_of args ''kubernetesversionid'')),
          (''serviceofferingid'', the (map_of args ''serviceofferingid'')),
          (''size'', the (map_of args ''size''))]
      else if cmd = ''upgradeKubernetesCluster'' then
        map_option (AList.update ''kubernetesversionid''
          (the (map_of args ''kubernetesversionid''))) c
      else if cmd = ''scaleKubernetesCluster'' then
        map_option (AList.update ''size'' (the (map_of args ''size''))
          \<circ> AList.update ''serviceofferingid'' (the (map_of args ''serviceofferingid''))) c
      else if cmd = ''startKubernetesCluster'' then
        map_option (AList.update ''state'' (JStr ''Running'')) c
      else if cmd = ''stopKubernetesCluster'' then
        map_option (AList.update ''state'' (JStr ''Stopped'')) c
      else if cmd = ''deleteKubernetesCluster'' then None
      else c)"

definition sim_api :: "dict option \<Rightarrow> call list \<Rightarrow> string \<Rightarrow> dict \<Rightarrow> error + dict" where
  "sim_api c0 h cmd args =
     (let c = foldl apply_call c0 h in
      if cmd = ''listKubernetesClusters'' then
        (case c of None \<Rightarrow> Inr []
         | Some d \<Rightarrow> Inr [(''count'', JInt 1), (''kubernetescluster'', JList [JDict d])])
      else if cmd = ''listKubernetesSupportedVersions'' then Inr demo_versions
      else if cmd = ''listServiceOfferings'' then Inr demo_offerings
      else if cmd = ''getKubernetesClusterConfig'' then
        Inr [(''clusterconfig'', JDict [(''configdata'', JStr ''cfg'')])]
      else Inr [(''jobid'', JStr ''j-1'')])"

definition sim_poll :: "dict option \<Rightarrow> call list \<Rightarrow> dict \<Rightarrow> string \<Rightarrow> error + dict" where
  "sim_poll c0 h job key =
     (case foldl apply_call c0 h of
        None \<Rightarrow> Inr [(''success'', JBool True)]
      | Some d \<Rightarrow> Inr d)"

definition sim_env :: "dict option \<Rightarrow> env" where
  "sim_env c0 = \<lparr>e_api = sim_api c0, e_poll = sim_poll c0, e_get_account = Inr JNone,
     e_get_domain = Inr JNone, e_get_network = Inr JNone, e_get_project = Inr JNone,
     e_get_zone = Inr (JStr ''z-1'')\<rparr>"

text \<open>The demo cluster after an upgrade to the second version of the catalog.\<close>

definition upgraded_cluster :: dict where
  "upgraded_cluster = [(''id'', JStr ''c-1''), (''name'', JStr ''k8s-cluster-01''),
     (''state'', JStr ''Running''), (''kubernetesversionid'', JStr ''v-2''),
     (''serviceofferingid'', JStr ''o-1''), (''size'', JInt 4)]"

text \<open>A remote side on which every listing is empty.\<close>

definition empty_env :: env where
  "empty_env = sim_env None\<lparr>e_api := \<lambda>h c a. Inr []\<rparr>"

text \<open>The parameters of the first example of the module's documentation.\<close>

definition demo_params :: params where
  "demo_params = \<lparr>p_id = None, p_name = ''k8s-cluster-01'', p_zone = ''ch-zrh-ix-01'',
     p_description = Some ''Kubernetes cluster'', p_service_offering = Some ''CH23'',
     p_size = Some 4, p_version = Some ''v1.27.3'', p_docker_registry = None,
     p_control_nodes = None, p_load_balancer = None, p_ssh_key = None, p_root_disk = None,
     p_state = Present, p_poll_async = True, check_mode = False\<rparr>"

text \<open>The state of the object once \<open>get_k8s\<close> has cached the record of a cluster.\<close>

definition cached :: "dict \<Rightarrow> st" where
  "cached d = (init [])\<lparr>k8s := Some d\<rparr>"

section \<open>Basic facts\<close>

lemmas model_defs = main_def steps_def present_k8s_def get_k8s_def lookup_by_name_def
  create_k8s_def update_k8s_def update_args_def version_group_def scale_group_def start_k8s_def stop_k8s_def absent_k8s_def k8s_config_def
  final_check_def get_version_def get_service_offering_def thn_def ret_def raise_def lift_def
  gets_def set_changed_def set_k8s_def query_api_def poll_job_def getitem_def get_by_key_def
  entries_of_def set_version_def set_service_offering_def first_cluster_def has_changed_def
  missing_params_def fail_on_missing_params_def registry_of_def create_args_def call_and_poll_def id_of_def
  state_lower_def configdata_of_def truthy_def lower_def lower_char_def quoted_def fmt_def
  ostr_def oint_def init_def mutating_def

lemmas demo_defs = upgraded_cluster_def sim_env_def sim_api_def sim_poll_def demo_params_def demo_cluster_def
  demo_versions_def demo_offerings_def

lemma thn_Inr: "f s = (Inr x, s') \<Longrightarrow> thn f g s = g x s'"
  by (simp add: thn_def)

lemma thn_Inl: "f s = (Inl e, s') \<Longrightarrow> thn f g s = (Inl e, s')"
  by (simp add: thn_def)

lemma thn_ret: "thn (ret x) g s = g x s"
  by (simp add: thn_def ret_def)

lemma thn_raise: "thn (raise e) g s = (Inl e, s)"
  by (simp add: thn_def raise_def)

lemma thn_lift_Inr: "thn (lift (Inr x)) g s = g x s"
  by (simp add: thn_def lift_def)

lemma thn_lift_Inl: "thn (lift (Inl e)) g s = (Inl e, s)"
  by (simp add: thn_def lift_def)

lemma quietI:
  "(\<And>s. filter mutating (trace (snd (f s))) = filter mutating (trace s)
                 \<and> changed (snd (f s)) = changed s) \<Longrightarrow> quiet f"
  by (simp add: quiet_def)

lemma quietD:
  "quiet f \<Longrightarrow> filter mutating (trace (snd (f s))) = filter mutating (trace s)
                 \<and> changed (snd (f s)) = changed s"
  by (simp add: quiet_def)

lemma quiet_ret: "quiet (ret x)"
  by (simp add: quiet_def ret_def)

lemma quiet_raise: "quiet (raise e)"
  by (simp add: quiet_def raise_def)

lemma quiet_lift: "quiet (lift r)"
  by (simp add: quiet_def lift_def)

lemma quiet_thn:
  assumes f: "quiet f" and g: "\<And>x. quiet (g x)"
  shows "quiet (thn f g)"
proof (rule quietI)
  fix s
  obtain r s' where fs: "f s = (r, s')" by (cases "f s")
  from quietD[OF f, of s] fs
  have a: "filter mutating (trace s') = filter mutating (trace s) \<and> changed s' = changed s"
    by simp
  show "filter mutating (trace (snd (thn f g s))) = filter mutating (trace s)
                 \<and> changed (snd (thn f g s)) = changed s"
  proof (cases r)
    case (Inl e)
    with fs a show ?thesis by (simp add: thn_def)
  next
    case (Inr x)
    with fs a quietD[OF g, of x s'] show ?thesis by (simp add: thn_def)
  qed
qed

lemma quiet_set_k8s: "quiet (set_k8s k)"
  by (simp add: quiet_def set_k8s_def)

lemma quiet_query_api: "\<not> mutating (Call cmd args) \<Longrightarrow> quiet (query_api ev cmd args)"
  by (simp add: quiet_def query_api_def)

lemma quiet_poll_job: "quiet (poll_job ev j key)"
  by (simp add: quiet_def poll_job_def)

lemma quiet_if: "quiet f \<Longrightarrow> quiet g \<Longrightarrow> quiet (if b then f else g)"
  by simp

lemma quiet_get_by_key: "quiet (get_by_key key d)"
  by (simp add: get_by_key_def quiet_ret quiet_raise split: option.split)

lemma quiet_set_version: "quiet (set_version v n)"
  by (simp add: quiet_def set_version_def)

lemma quiet_set_service_offering: "quiet (set_service_offering v n)"
  by (simp add: quiet_def set_service_offering_def)

lemma quiet_gets: "quiet (gets f)"
  by (simp add: quiet_def gets_def)

lemma quiet_get_version: "quiet (get_version ev p key)"
  unfolding get_version_def
  by (intro quiet_thn quiet_gets quiet_if quiet_get_by_key quiet_query_api quiet_raise quiet_lift)
     (simp_all add: mutating_def quiet_raise quiet_thn quiet_lift quiet_set_version
        quiet_get_by_key split: option.split)

lemma quiet_get_service_offering: "quiet (get_service_offering ev p key)"
  unfolding get_service_offering_def
  by (intro quiet_thn quiet_gets quiet_if quiet_get_by_key quiet_query_api quiet_raise quiet_lift)
     (simp_all add: mutating_def quiet_raise quiet_thn quiet_lift quiet_set_service_offering
        quiet_get_by_key split: option.split)

lemma quiet_lookup_by_name: "quiet (lookup_by_name ev p args)"
  unfolding lookup_by_name_def
  by (intro quiet_thn quiet_query_api quiet_if quiet_lift quiet_set_k8s quiet_gets)
     (simp add: mutating_def)

lemma quiet_get_k8s: "quiet (get_k8s ev p)"
  unfolding get_k8s_def
  apply (intro quiet_thn quiet_gets quiet_if)
  apply (simp split: option.split)
   apply (intro conjI impI allI quiet_lookup_by_name quiet_thn quiet_query_api quiet_if
      quiet_lift quiet_set_k8s quiet_gets)
   apply (simp add: mutating_def)
  done

lemma quiet_k8s_config: "quiet (k8s_config ev p)"
  unfolding k8s_config_def Let_def
  by (intro quiet_thn quiet_get_k8s quiet_if quiet_lift quiet_query_api quiet_set_k8s quiet_ret)
     (simp add: mutating_def)

lemma get_k8s_cached: "truthy (k8s s) \<Longrightarrow> get_k8s ev p s = (Inr (k8s s), s)"
  by (simp add: get_k8s_def thn_def gets_def)

lemma call_and_poll_trace:
  "trace (snd (call_and_poll ev p cmd args s)) = trace s @ [Call cmd args]"
  by (simp add: call_and_poll_def thn_def query_api_def poll_job_def ret_def
      split: sum.splits prod.splits)

lemma call_and_poll_changed:
  "changed (snd (call_and_poll ev p cmd args s)) = changed s"
  by (simp add: call_and_poll_def thn_def query_api_def poll_job_def ret_def
      split: sum.splits prod.splits)

lemma thn_call_and_poll_trace:
  "trace (snd (thn (call_and_poll ev p cmd args) (\<lambda>r. ret (Some r)) s))
     = trace s @ [Call cmd args]"
  using call_and_poll_trace[of ev p cmd args s]
  by (cases "call_and_poll ev p cmd args s") (auto simp: thn_def ret_def split: sum.splits)

lemma thn_call_and_poll_changed:
  "changed (snd (thn (call_and_poll ev p cmd args) (\<lambda>r. ret (Some r)) s)) = changed s"
  using call_and_poll_changed[of ev p cmd args s]
  by (cases "call_and_poll ev p cmd args s") (auto simp: thn_def ret_def split: sum.splits)

section \<open>Calls that a method does not issue\<close>

lemma keepsI: "(\<And>s. filter P (trace (snd (f s))) = filter P (trace s)) \<Longrightarrow> keeps P f"
  by (simp add: keeps_def)

lemma keepsD: "keeps P f \<Longrightarrow> filter P (trace (snd (f s))) = filter P (trace s)"
  by (simp add: keeps_def)

lemma quiet_keeps: "quiet f \<Longrightarrow> keeps mutating f"
  by (simp add: quiet_def keeps_def)

lemma keeps_ret: "keeps P (ret x)"
  by (simp add: keeps_def ret_def)

lemma keeps_raise: "keeps P (raise e)"
  by (simp add: keeps_def raise_def)

lemma keeps_lift: "keeps P (lift r)"
  by (simp add: keeps_def lift_def)

lemma keeps_gets: "keeps P (gets f)"
  by (simp add: keeps_def gets_def)

lemma keeps_set_k8s: "keeps P (set_k8s k)"
  by (simp add: keeps_def set_k8s_def)

lemma keeps_set_changed: "keeps P set_changed"
  by (simp add: keeps_def set_changed_def)

lemma keeps_thn:
  assumes f: "keeps P f" and g: "\<And>x. keeps P (g x)"
  shows "keeps P (thn f g)"
proof (rule keepsI)
  fix s
  obtain r s' where fs: "f s = (r, s')" by (cases "f s")
  from keepsD[OF f, of s] fs have a: "filter P (trace s') = filter P (trace s)" by simp
  show "filter P (trace (snd (thn f g s))) = filter P (trace s)"
  proof (cases r)
    case (Inl e)
    with fs a show ?thesis by (simp add: thn_def)
  next
    case (Inr x)
    with fs a keepsD[OF g, of x s'] show ?thesis by (simp add: thn_def)
  qed
qed

lemma keeps_if: "keeps P f \<Longrightarrow> keeps P g \<Longrightarrow> keeps P (if b then f else g)"
  by simp

lemma keeps_query_api: "\<not> P (Call cmd args) \<Longrightarrow> keeps P (query_api ev cmd args)"
  by (simp add: keeps_def query_api_def)

lemma keeps_poll_job: "keeps P (poll_job ev j key)"
  by (simp add: keeps_def poll_job_def)

lemma keeps_call_and_poll: "\<not> P (Call cmd args) \<Longrightarrow> keeps P (call_and_poll ev p cmd args)"
  unfolding call_and_poll_def
  by (intro keeps_thn keeps_query_api keeps_if keeps_poll_job keeps_ret)

lemma keeps_lookup_by_name:
  "(\<And>args. \<not> P (Call ''listKubernetesClusters'' args)) \<Longrightarrow> keeps P (lookup_by_name ev p a)"
  unfolding lookup_by_name_def
  by (intro keeps_thn keeps_query_api keeps_if keeps_lift keeps_set_k8s keeps_gets)

lemma keeps_get_k8s:
  assumes "\<And>args. \<not> P (Call ''listKubernetesClusters'' args)"
  shows "keeps P (get_k8s ev p)"
  unfolding get_k8s_def
  apply (intro keeps_thn keeps_gets keeps_if)
  apply (simp split: option.split)
  apply (intro conjI impI allI keeps_lookup_by_name keeps_thn keeps_query_api keeps_if
      keeps_lift keeps_set_k8s keeps_gets assms)
  done

lemma keeps_final_check: "keeps P (final_check p k)"
  unfolding final_check_def
  by (intro keeps_thn keeps_if keeps_lift keeps_raise keeps_ret)









lemma keeps_get_by_key: "keeps P (get_by_key key d)"
  by (simp add: get_by_key_def keeps_ret keeps_raise split: option.split)

lemma keeps_set_version: "keeps P (set_version v n)"
  by (simp add: keeps_def set_version_def)

lemma keeps_set_service_offering: "keeps P (set_service_offering v n)"
  by (simp add: keeps_def set_service_offering_def)

lemma keeps_get_version:
  "\<not> P (Call ''listKubernetesSupportedVersions'' []) \<Longrightarrow> keeps P (get_version ev p key)"
  unfolding get_version_def
  by (intro keeps_thn keeps_gets keeps_if keeps_get_by_key keeps_query_api keeps_raise
      keeps_lift)
     (simp_all add: keeps_raise keeps_thn keeps_lift keeps_set_version keeps_get_by_key
        split: option.split)

lemma keeps_get_service_offering:
  "\<not> P (Call ''listServiceOfferings'' []) \<Longrightarrow> keeps P (get_service_offering ev p key)"
  unfolding get_service_offering_def
  by (intro keeps_thn keeps_gets keeps_if keeps_get_by_key keeps_query_api keeps_raise
      keeps_lift)
     (simp_all add: keeps_raise keeps_thn keeps_lift keeps_set_service_offering
        keeps_get_by_key split: option.split)

lemma keeps_k8s_config:
  assumes "\<And>args. \<not> P (Call ''listKubernetesClusters'' args)"
    and "\<And>args. \<not> P (Call ''getKubernetesClusterConfig'' args)"
  shows "keeps P (k8s_config ev p)"
  unfolding k8s_config_def Let_def
  by (intro keeps_thn keeps_get_k8s keeps_if keeps_lift keeps_query_api keeps_set_k8s
      keeps_ret assms)

lemma keeps_create_start: "keeps is_create (start_k8s ev p)"
  unfolding start_k8s_def
  by (intro keeps_thn keeps_get_k8s keeps_if keeps_lift keeps_ret keeps_set_changed
      keeps_call_and_poll) (simp_all add: is_create_def cmd_of_def)

lemma keeps_create_stop: "keeps is_create (stop_k8s ev p)"
  unfolding stop_k8s_def
  by (intro keeps_thn keeps_get_k8s keeps_if keeps_lift keeps_ret keeps_set_changed
      keeps_call_and_poll) (simp_all add: is_create_def cmd_of_def)

lemma thn_keeps_right:
  assumes "\<And>x. keeps P (g x)"
  shows "filter P (trace (snd (thn f g s))) = filter P (trace (snd (f s)))"
proof -
  obtain r s' where fs: "f s = (r, s')" by (cases "f s")
  show ?thesis
  proof (cases r)
    case (Inl e)
    with fs show ?thesis by (simp add: thn_def)
  next
    case (Inr x)
    with fs keepsD[OF assms, of x s'] show ?thesis by (simp add: thn_def)
  qed
qed

lemma thn_changed_right:
  assumes "\<And>x. quiet (g x)"
  shows "changed (snd (thn f g s)) = changed (snd (f s))"
proof -
  obtain r s' where fs: "f s = (r, s')" by (cases "f s")
  show ?thesis
  proof (cases r)
    case (Inl e)
    with fs show ?thesis by (simp add: thn_def)
  next
    case (Inr x)
    with fs quietD[OF assms, of x s'] show ?thesis by (simp add: thn_def)
  qed
qed

section \<open>Resolvers and their caches\<close>

lemma get_by_key_hit: "map_of d key = Some v \<Longrightarrow> get_by_key key d s = (Inr v, s)"
  by (simp add: get_by_key_def ret_def)

lemma get_by_key_Inr: "fst (get_by_key key d s) = Inr v \<Longrightarrow> map_of d key = Some v"
  by (simp add: get_by_key_def ret_def raise_def split: option.splits)

lemma get_version_hit:
  "truthy (version s) \<Longrightarrow> map_of (the (version s)) key = Some vid \<Longrightarrow>
   get_version ev p key s = (Inr vid, s)"
  by (simp add: get_version_def thn_def gets_def get_by_key_hit)

lemma get_service_offering_hit:
  "truthy (service_offering s) \<Longrightarrow> map_of (the (service_offering s)) key = Some oid \<Longrightarrow>
   get_service_offering ev p key s = (Inr oid, s)"
  by (simp add: get_service_offering_def thn_def gets_def get_by_key_hit)

lemma get_version_fields:
  "k8s (snd (get_version ev p key s)) = k8s s
   \<and> service_offering (snd (get_version ev p key s)) = service_offering s"
  by (simp add: get_version_def thn_def gets_def get_by_key_def query_api_def raise_def
      ret_def lift_def set_version_def split: option.splits sum.splits prod.splits)

lemma get_service_offering_fields:
  "k8s (snd (get_service_offering ev p key s)) = k8s s
   \<and> version (snd (get_service_offering ev p key s)) = version s"
  by (simp add: get_service_offering_def thn_def gets_def get_by_key_def query_api_def raise_def
      ret_def lift_def set_service_offering_def split: option.splits sum.splits prod.splits)

lemma getitem_nonempty: "getitem v key = Inr n \<Longrightarrow> v \<noteq> []"
  by (auto simp: getitem_def)

lemma get_version_caches:
  assumes "fst (get_version ev p key s) = Inr vid"
  shows "truthy (version (snd (get_version ev p key s)))
    \<and> map_of (the (version (snd (get_version ev p key s)))) key = Some vid"
proof (cases "truthy (version s)")
  case True
  with assms have "map_of (the (version s)) key = Some vid"
    by (simp add: get_version_def thn_def gets_def get_by_key_Inr)
  with True show ?thesis by (simp add: get_version_hit)
next
  case False
  with assms show ?thesis
    by (auto simp: get_version_def thn_def gets_def get_by_key_def query_api_def raise_def
      ret_def lift_def set_version_def truthy_def
      split: option.splits sum.splits prod.splits if_splits dest: getitem_nonempty)
qed

lemma get_service_offering_caches:
  assumes "fst (get_service_offering ev p key s) = Inr oid"
  shows "truthy (service_offering (snd (get_service_offering ev p key s)))
    \<and> map_of (the (service_offering (snd (get_service_offering ev p key s)))) key = Some oid"
proof (cases "truthy (service_offering s)")
  case True
  with assms have "map_of (the (service_offering s)) key = Some oid"
    by (simp add: get_service_offering_def thn_def gets_def get_by_key_Inr)
  with True show ?thesis by (simp add: get_service_offering_hit)
next
  case False
  with assms show ?thesis
    by (auto simp: get_service_offering_def thn_def gets_def get_by_key_def query_api_def
      raise_def ret_def lift_def set_service_offering_def truthy_def
      split: option.splits sum.splits prod.splits if_splits dest: getitem_nonempty)
qed

lemma update_k8s_resolved:
  assumes "k8s s = Some d" "d \<noteq> []" "map_of d ''id'' = Some i"
    and v: "fst (get_version ev p ''id'' s) = Inr vid"
    and o: "fst (get_service_offering ev p ''id'' (snd (get_version ev p ''id'' s))) = Inr oid"
  shows "update_k8s ev p s =
     thn (version_group ev p (update_args p i vid oid) d i) (\<lambda>k1.
     thn (scale_group ev p (update_args p i vid oid) k1 i) (\<lambda>k2. ret (Some k2)))
       (snd (get_service_offering ev p ''id'' (snd (get_version ev p ''id'' s))))"
proof -
  obtain s1 where v': "get_version ev p ''id'' s = (Inr vid, s1)"
    using v by (cases "get_version ev p ''id'' s") simp
  obtain s2 where o': "get_service_offering ev p ''id'' s1 = (Inr oid, s2)"
    using o v' by (cases "get_service_offering ev p ''id'' s1") simp
  have g: "get_k8s ev p s = (Inr (Some d), s)"
    using assms(1,2) get_k8s_cached[of s ev p] by (simp add: truthy_def)
  show ?thesis
    unfolding update_k8s_def Let_def
    using g v' o' assms(3)
    by (simp add: thn_def id_of_def getitem_def lift_def)
qed

section \<open>Postconditions\<close>

lemma ensuresI:
  "(\<And>s x s'. f s = (Inr x, s') \<Longrightarrow> Q x s') \<Longrightarrow> ensures Q f"
  by (auto simp: ensures_def split: prod.splits sum.splits)

lemma ensuresD: "ensures Q f \<Longrightarrow> f s = (Inr x, s') \<Longrightarrow> Q x s'"
  by (auto simp: ensures_def split: prod.splits sum.splits dest: spec[of _ s])

lemma ensures_thn:
  assumes "\<And>x. ensures Q (g x)"
  shows "ensures Q (thn f g)"
proof (rule ensuresI)
  fix s y s'
  assume a: "thn f g s = (Inr y, s')"
  obtain r s0 where fs: "f s = (r, s0)" by (cases "f s")
  show "Q y s'"
  proof (cases r)
    case (Inl e)
    with a fs show ?thesis by (simp add: thn_def)
  next
    case (Inr x)
    with a fs have "g x s0 = (Inr y, s')" by (simp add: thn_def)
    with assms[of x] show ?thesis by (rule ensuresD)
  qed
qed

lemma ensures_raise: "ensures Q (raise e)"
  by (simp add: ensures_def raise_def)

lemma ensures_if: "ensures Q f \<Longrightarrow> ensures Q g \<Longrightarrow> ensures Q (if b then f else g)"
  by simp

lemma get_k8s_ensures: "ensures (\<lambda>k s. k8s s = k) (get_k8s ev p)"
proof -
  have g: "ensures (\<lambda>k s. k8s s = k) (gets k8s)"
    by (simp add: ensures_def gets_def)
  have l: "ensures (\<lambda>k s. k8s s = k) (lookup_by_name ev p a)" for a
    unfolding lookup_by_name_def by (intro ensures_thn ensures_if g)
  have t: "ensures (\<lambda>k s. k8s s = k)
     (if \<not> truthy cached then
        (case p_id p of
           None \<Rightarrow> lookup_by_name ev p []
         | Some uuid \<Rightarrow>
             if uuid = [] then lookup_by_name ev p []
             else
               thn (query_api ev ''listKubernetesClusters'' [(''id'', JStr uuid)]) (\<lambda>r.
                 if r \<noteq> []
                 then thn (lift (first_cluster r)) (\<lambda>c. thn (set_k8s c) (\<lambda>_. gets k8s))
                 else lookup_by_name ev p [(''id'', JStr uuid)]))
      else gets k8s)" for cached
    by (cases "p_id p") (auto intro!: ensures_thn ensures_if g l)
  show ?thesis
    unfolding get_k8s_def by (intro ensures_thn t)
qed

lemma get_k8s_result:
  assumes "fst (get_k8s ev p s) = Inr k"
  shows "k8s (snd (get_k8s ev p s)) = k"
  using ensuresD[OF get_k8s_ensures, of ev p s k "snd (get_k8s ev p s)"] assms
  by (cases "get_k8s ev p s") simp

section \<open>Reference resolver: the two failures\<close>













section \<open>The final check of the entry point\<close>

lemma main_after_steps:
  "fst (steps ev p s) = Inr k \<Longrightarrow> main ev p s = final_check p k (snd (steps ev p s))"
  by (cases "steps ev p s") (simp add: main_def thn_def)

text \<open>
  Claim C4. Whenever the reconciliation steps complete and hand over a record whose
  \<open>state\<close> string equals \<open>error\<close> when lowercased, the invocation fails with the message
  that names the cluster; nothing else about the steps (the calls they issued, the changed
  flag) matters.
\<close>

theorem error_state_is_fatal:
  assumes "fst (steps ev p s) = Inr (Some d)"
    and "map_of d ''state'' = Some (JStr t)"
    and "lower t = ''error''"
  shows "main ev p s
    = (Inl (FailJson (''Kubernetes cluster named '' @ quoted (p_name p) @ '' in error state.'')),
       snd (steps ev p s))"
proof -
  from assms(2) have "d \<noteq> []" by auto
  with assms(2,3) show ?thesis
    unfolding main_after_steps[OF assms(1)]
    by (simp add: final_check_def truthy_def state_lower_def thn_def lift_def raise_def)
qed

theorem error_state_is_fatal_witness:
  "fst (main (sim_env (Some (demo_cluster ''ERROR''))) demo_params (init []))
    = Inl (FailJson
        (''Kubernetes cluster named '' @ quoted ''k8s-cluster-01'' @ '' in error state.''))"
proof -
  have h1: "fst (steps (sim_env (Some (demo_cluster ''ERROR''))) demo_params (init []))
    = Inr (Some (demo_cluster ''ERROR'' @ [(''config'', JStr ''cfg'')]))"
    by (simp add: model_defs demo_defs Let_def)
  have h2: "map_of (demo_cluster ''ERROR'' @ [(''config'', JStr ''cfg'')]) ''state''
    = Some (JStr ''ERROR'')"
    by (simp add: demo_cluster_def)
  have h3: "lower ''ERROR'' = ''error''"
    by (simp add: lower_def lower_char_def)
  show ?thesis
    using error_state_is_fatal [OF h1 h2 h3] by (simp add: demo_params_def)
qed

text \<open>
  Claim C10. When the value that the steps hand over is None or has no \<open>state\<close> key, the
  invocation succeeds with that value: the error comparison is not evaluated (evaluating
  \<open>k8s['state']\<close> would raise). Conversely, the invocation fails with the error state
  message only when the value is a non-empty record that has a \<open>state\<close> string equal to
  \<open>error\<close> when lowercased.
\<close>

theorem error_check_needs_state:
  assumes "fst (steps ev p s) = Inr k"
  shows "((case k of None \<Rightarrow> True | Some d \<Rightarrow> map_of d ''state'' = None) \<longrightarrow>
            main ev p s = (Inr k, snd (steps ev p s)))
    \<and> (fst (main ev p s)
         = Inl (FailJson
             (''Kubernetes cluster named '' @ quoted (p_name p) @ '' in error state.'')) \<longrightarrow>
       (\<exists>d t. k = Some d \<and> d \<noteq> [] \<and> map_of d ''state'' = Some (JStr t)
          \<and> lower t = ''error''))"
proof (intro conjI impI)
  assume "case k of None \<Rightarrow> True | Some d \<Rightarrow> map_of d ''state'' = None"
  then show "main ev p s = (Inr k, snd (steps ev p s))"
    unfolding main_after_steps[OF assms]
    by (auto simp: final_check_def truthy_def ret_def split: option.splits)
next
  assume f: "fst (main ev p s)
         = Inl (FailJson
             (''Kubernetes cluster named '' @ quoted (p_name p) @ '' in error state.''))"
  show "\<exists>d t. k = Some d \<and> d \<noteq> [] \<and> map_of d ''state'' = Some (JStr t)
          \<and> lower t = ''error''"
  proof (cases k)
    case None
    with f show ?thesis
      unfolding main_after_steps[OF assms]
      by (simp add: final_check_def truthy_def ret_def)
  next
    case (Some d)
    with f show ?thesis
      unfolding main_after_steps[OF assms]
      by (auto simp: final_check_def truthy_def ret_def state_lower_def thn_def lift_def
          raise_def split: if_splits option.splits jval.splits)
  qed
qed

theorem error_check_needs_state_witness:
  "main (sim_env (Some (demo_cluster ''Running'')))
      (demo_params\<lparr>p_state := Disabled, p_poll_async := False\<rparr>) (init [])
    = (Inr (Some [(''jobid'', JStr ''j-1'')]),
       snd (steps (sim_env (Some (demo_cluster ''Running'')))
         (demo_params\<lparr>p_state := Disabled, p_poll_async := False\<rparr>) (init [])))
   \<and> main (sim_env None) (demo_params\<lparr>check_mode := True\<rparr>) (init [])
    = (Inr None, snd (steps (sim_env None) (demo_params\<lparr>check_mode := True\<rparr>) (init [])))"
proof -
  have h1: "fst (steps (sim_env (Some (demo_cluster ''Running'')))
         (demo_params\<lparr>p_state := Disabled, p_poll_async := False\<rparr>) (init []))
     = Inr (Some [(''jobid'', JStr ''j-1'')])"
    by (simp add: model_defs demo_defs Let_def)
  have h2: "fst (steps (sim_env None) (demo_params\<lparr>check_mode := True\<rparr>) (init []))
     = Inr None"
    by (simp add: model_defs demo_defs Let_def)
  show ?thesis
    using error_check_needs_state [OF h1] error_check_needs_state [OF h2] by simp
qed

section \<open>Cluster state reader: which lookups are issued\<close>

lemma lookup_by_name_trace:
  "trace (snd (lookup_by_name ev p args s))
     = trace s @ [Call ''listKubernetesClusters'' (AList.update ''name'' (JStr (p_name p)) args)]"
  by (simp add: lookup_by_name_def thn_def gets_def query_api_def lift_def set_k8s_def
      split: sum.splits prod.splits)

text \<open>
  Claim C6, as the code has it. A cached record is returned without any lookup. Without a
  cached record and without an identifier, exactly one lookup by name is issued. With an
  identifier, the first lookup carries the identifier alone; when it yields a record no
  further lookup is issued, and when it yields nothing a second lookup is issued that
  carries both the identifier and the name.
\<close>

theorem cluster_lookup_calls:
  "(truthy (k8s s) \<longrightarrow> get_k8s ev p s = (Inr (k8s s), s))
   \<and> (\<not> truthy (k8s s) \<and> (p_id p = None \<or> p_id p = Some []) \<longrightarrow>
        trace (snd (get_k8s ev p s))
          = trace s @ [Call ''listKubernetesClusters'' [(''name'', JStr (p_name p))]])
   \<and> (\<not> truthy (k8s s) \<and> p_id p = Some u \<and> u \<noteq> []
        \<and> e_api ev (trace s) ''listKubernetesClusters'' [(''id'', JStr u)] = Inr r
        \<and> r \<noteq> [] \<longrightarrow>
        trace (snd (get_k8s ev p s))
          = trace s @ [Call ''listKubernetesClusters'' [(''id'', JStr u)]])
   \<and> (\<not> truthy (k8s s) \<and> p_id p = Some u \<and> u \<noteq> []
        \<and> e_api ev (trace s) ''listKubernetesClusters'' [(''id'', JStr u)] = Inr [] \<longrightarrow>
        trace (snd (get_k8s ev p s))
          = trace s @ [Call ''listKubernetesClusters'' [(''id'', JStr u)],
              Call ''listKubernetesClusters'' [(''id'', JStr u), (''name'', JStr (p_name p))]])"
proof (intro conjI impI)
  assume "truthy (k8s s)"
  then show "get_k8s ev p s = (Inr (k8s s), s)" by (rule get_k8s_cached)
next
  assume "\<not> truthy (k8s s) \<and> (p_id p = None \<or> p_id p = Some [])"
  then show "trace (snd (get_k8s ev p s))
          = trace s @ [Call ''listKubernetesClusters'' [(''name'', JStr (p_name p))]]"
    using lookup_by_name_trace[of ev p "[]" s]
    by (auto simp: get_k8s_def thn_def gets_def)
next
  assume "\<not> truthy (k8s s) \<and> p_id p = Some u \<and> u \<noteq> []
        \<and> e_api ev (trace s) ''listKubernetesClusters'' [(''id'', JStr u)] = Inr r
        \<and> r \<noteq> []"
  then show "trace (snd (get_k8s ev p s))
          = trace s @ [Call ''listKubernetesClusters'' [(''id'', JStr u)]]"
    by (simp add: get_k8s_def thn_def gets_def query_api_def lift_def set_k8s_def
        split: sum.splits prod.splits)
next
  assume "\<not> truthy (k8s s) \<and> p_id p = Some u \<and> u \<noteq> []
        \<and> e_api ev (trace s) ''listKubernetesClusters'' [(''id'', JStr u)] = Inr []"
  then show "trace (snd (get_k8s ev p s))
          = trace s @ [Call ''listKubernetesClusters'' [(''id'', JStr u)],
              Call ''listKubernetesClusters'' [(''id'', JStr u), (''name'', JStr (p_name p))]]"
    using lookup_by_name_trace[of ev p "[(''id'', JStr u)]"
        "s\<lparr>trace := trace s @ [Call ''listKubernetesClusters'' [(''id'', JStr u)]]\<rparr>"]
    by (simp add: get_k8s_def thn_def gets_def query_api_def)
qed

text \<open>
  The claim as stated fails: with the identifier \<open>c-9\<close> supplied and its lookup yielding
  nothing, a second lookup that carries the name is issued.
\<close>

theorem name_lookup_after_failed_id_lookup:
  "p_id (demo_params\<lparr>p_id := Some ''c-9''\<rparr>) = Some ''c-9''
   \<and> e_api empty_env [] ''listKubernetesClusters'' [(''id'', JStr ''c-9'')] = Inr []
   \<and> trace (snd (get_k8s empty_env (demo_params\<lparr>p_id := Some ''c-9''\<rparr>) (init [])))
      = [Call ''listKubernetesClusters'' [(''id'', JStr ''c-9'')],
         Call ''listKubernetesClusters''
           [(''id'', JStr ''c-9''), (''name'', JStr ''k8s-cluster-01'')]]"
  by (simp add: model_defs empty_env_def demo_defs)

theorem cluster_lookup_calls_witness:
  "get_k8s empty_env demo_params ((init [])\<lparr>k8s := Some (demo_cluster ''Running'')\<rparr>)
     = (Inr (Some (demo_cluster ''Running'')), (init [])\<lparr>k8s := Some (demo_cluster ''Running'')\<rparr>)
   \<and> trace (snd (get_k8s empty_env demo_params (init [])))
     = [Call ''listKubernetesClusters'' [(''name'', JStr ''k8s-cluster-01'')]]
   \<and> trace (snd (get_k8s (sim_env (Some (demo_cluster ''Running'')))
        (demo_params\<lparr>p_id := Some ''c-1''\<rparr>) (init [])))
     = [Call ''listKubernetesClusters'' [(''id'', JStr ''c-1'')]]
   \<and> trace (snd (get_k8s empty_env (demo_params\<lparr>p_id := Some ''c-9''\<rparr>) (init [])))
     = [Call ''listKubernetesClusters'' [(''id'', JStr ''c-9'')],
        Call ''listKubernetesClusters''
          [(''id'', JStr ''c-9''), (''name'', JStr ''k8s-cluster-01'')]]"
proof -
  have h1: "truthy (k8s ((init [])\<lparr>k8s := Some (demo_cluster ''Running'')\<rparr>))"
    by (simp add: truthy_def demo_cluster_def)
  have h2: "\<not> truthy (k8s (init [])) \<and> (p_id demo_params = None \<or> p_id demo_params = Some [])"
    by (simp add: truthy_def init_def demo_params_def)
  have h3: "\<not> truthy (k8s (init [])) \<and> p_id (demo_params\<lparr>p_id := Some ''c-1''\<rparr>) = Some ''c-1''
      \<and> ''c-1'' \<noteq> []
      \<and> e_api (sim_env (Some (demo_cluster ''Running''))) (trace (init []))
           ''listKubernetesClusters'' [(''id'', JStr ''c-1'')]
         = Inr [(''count'', JInt 1),
             (''kubernetescluster'', JList [JDict (demo_cluster ''Running'')])]
      \<and> [(''count'', JInt 1), (''kubernetescluster'', JList [JDict (demo_cluster ''Running'')])]
         \<noteq> []"
    by (simp add: truthy_def init_def sim_env_def sim_api_def)
  have h4: "\<not> truthy (k8s (init [])) \<and> p_id (demo_params\<lparr>p_id := Some ''c-9''\<rparr>) = Some ''c-9''
      \<and> ''c-9'' \<noteq> []
      \<and> e_api empty_env (trace (init [])) ''listKubernetesClusters'' [(''id'', JStr ''c-9'')]
         = Inr []"
    by (simp add: truthy_def init_def empty_env_def)
  note a = cluster_lookup_calls [of "(init [])\<lparr>k8s := Some (demo_cluster ''Running'')\<rparr>"
      empty_env demo_params "''x''" "[]"]
  note b = cluster_lookup_calls [of "init []" empty_env demo_params "''x''" "[]"]
  note c = cluster_lookup_calls [of "init []" "sim_env (Some (demo_cluster ''Running''))"
      "demo_params\<lparr>p_id := Some ''c-1''\<rparr>" "''c-1''"
      "[(''count'', JInt 1), (''kubernetescluster'', JList [JDict (demo_cluster ''Running'')])]"]
  note d = cluster_lookup_calls [of "init []" empty_env "demo_params\<lparr>p_id := Some ''c-9''\<rparr>"
      "''c-9''" "[]"]
  from a h1 have 1: "get_k8s empty_env demo_params
       ((init [])\<lparr>k8s := Some (demo_cluster ''Running'')\<rparr>)
     = (Inr (Some (demo_cluster ''Running'')), (init [])\<lparr>k8s := Some (demo_cluster ''Running'')\<rparr>)"
    by simp
  from b h2 have 2: "trace (snd (get_k8s empty_env demo_params (init [])))
     = [Call ''listKubernetesClusters'' [(''name'', JStr ''k8s-cluster-01'')]]"
    by (simp add: init_def demo_params_def)
  from c h3 have 3: "trace (snd (get_k8s (sim_env (Some (demo_cluster ''Running'')))
        (demo_params\<lparr>p_id := Some ''c-1''\<rparr>) (init [])))
     = [Call ''listKubernetesClusters'' [(''id'', JStr ''c-1'')]]"
    by (simp add: init_def)
  from d h4 have 4: "trace (snd (get_k8s empty_env (demo_params\<lparr>p_id := Some ''c-9''\<rparr>) (init [])))
     = [Call ''listKubernetesClusters'' [(''id'', JStr ''c-9'')],
        Call ''listKubernetesClusters''
          [(''id'', JStr ''c-9''), (''name'', JStr ''k8s-cluster-01'')]]"
    by (simp add: init_def demo_params_def)
  from 1 2 3 4 show ?thesis by blast
qed

section \<open>Start and stop\<close>

lemma start_running:
  assumes "k8s s = Some d" "d \<noteq> []" "map_of d ''state'' = Some (JStr t)"
    "starting_running t"
  shows "start_k8s ev p s = (Inr (Some d), s)"
  using assms
  by (simp add: start_k8s_def get_k8s_cached truthy_def thn_def state_lower_def lift_def ret_def
      starting_running_def)

lemma start_other:
  assumes "k8s s = Some d" "d \<noteq> []" "map_of d ''state'' = Some (JStr t)"
    "\<not> starting_running t" "\<not> stopped_stopping t"
  shows "start_k8s ev p s = (Inr (Some d), s)"
  using assms
  by (simp add: start_k8s_def get_k8s_cached truthy_def thn_def state_lower_def lift_def ret_def
      starting_running_def stopped_stopping_def)

lemma start_stopped_check:
  assumes "k8s s = Some d" "d \<noteq> []" "map_of d ''state'' = Some (JStr t)"
    "stopped_stopping t" "check_mode p"
  shows "start_k8s ev p s = (Inr (Some d), s\<lparr>changed := True\<rparr>)"
proof -
  from assms(4) have "\<not> starting_running t"
    by (auto simp: starting_running_def stopped_stopping_def)
  with assms show ?thesis
    by (simp add: start_k8s_def get_k8s_cached truthy_def thn_def state_lower_def lift_def
        ret_def starting_running_def stopped_stopping_def set_changed_def)
qed

lemma start_stopped_call:
  assumes "k8s s = Some d" "d \<noteq> []" "map_of d ''state'' = Some (JStr t)"
    "stopped_stopping t" "\<not> check_mode p" "map_of d ''id'' = Some i"
  shows "trace (snd (start_k8s ev p s))
           = trace s @ [Call ''startKubernetesCluster'' [(''id'', i)]]
         \<and> changed (snd (start_k8s ev p s))"
proof -
  from assms(4) have "\<not> starting_running t"
    by (auto simp: starting_running_def stopped_stopping_def)
  with assms
  have "start_k8s ev p s
    = thn (call_and_poll ev p ''startKubernetesCluster'' [(''id'', i)]) (\<lambda>r. ret (Some r))
        (s\<lparr>changed := True\<rparr>)"
    by (simp add: start_k8s_def get_k8s_cached truthy_def thn_def state_lower_def lift_def
        starting_running_def stopped_stopping_def set_changed_def getitem_def)
  then show ?thesis
    by (simp add: thn_call_and_poll_trace thn_call_and_poll_changed)
qed

lemma stop_stopped:
  assumes "k8s s = Some d" "d \<noteq> []" "map_of d ''state'' = Some (JStr t)"
    "stopped_stopping t"
  shows "stop_k8s ev p s = (Inr (Some d), s)"
  using assms
  by (auto simp: stop_k8s_def get_k8s_cached truthy_def thn_def state_lower_def lift_def ret_def
      stopped_stopping_def)

lemma stop_other:
  assumes "k8s s = Some d" "d \<noteq> []" "map_of d ''state'' = Some (JStr t)"
    "\<not> starting_running t" "\<not> stopped_stopping t"
  shows "stop_k8s ev p s = (Inr (Some d), s)"
  using assms
  by (simp add: stop_k8s_def get_k8s_cached truthy_def thn_def state_lower_def lift_def ret_def
      starting_running_def stopped_stopping_def)

lemma stop_running_check:
  assumes "k8s s = Some d" "d \<noteq> []" "map_of d ''state'' = Some (JStr t)"
    "starting_running t" "check_mode p"
  shows "stop_k8s ev p s = (Inr (Some d), s\<lparr>changed := True\<rparr>)"
proof -
  from assms(4) have "\<not> stopped_stopping t"
    by (auto simp: starting_running_def stopped_stopping_def)
  with assms show ?thesis
    by (simp add: stop_k8s_def get_k8s_cached truthy_def thn_def state_lower_def lift_def
        ret_def starting_running_def stopped_stopping_def set_changed_def)
qed

lemma stop_running_call:
  assumes "k8s s = Some d" "d \<noteq> []" "map_of d ''state'' = Some (JStr t)"
    "starting_running t" "\<not> check_mode p" "map_of d ''id'' = Some i"
  shows "trace (snd (stop_k8s ev p s))
           = trace s @ [Call ''stopKubernetesCluster'' [(''id'', i)]]
         \<and> changed (snd (stop_k8s ev p s))"
proof -
  from assms(4) have "\<not> stopped_stopping t"
    by (auto simp: starting_running_def stopped_stopping_def)
  with assms
  have "stop_k8s ev p s
    = thn (call_and_poll ev p ''stopKubernetesCluster'' [(''id'', i)]) (\<lambda>r. ret (Some r))
        (s\<lparr>changed := True\<rparr>)"
    by (simp add: stop_k8s_def get_k8s_cached truthy_def thn_def state_lower_def lift_def
        starting_running_def stopped_stopping_def set_changed_def getitem_def)
  then show ?thesis
    by (simp add: thn_call_and_poll_trace thn_call_and_poll_changed)
qed

lemma steps_dispatch:
  "steps ev p =
     (case p_state p of
        Absent \<Rightarrow> absent_k8s ev p
      | Disabled \<Rightarrow> thn (present_k8s ev p) (\<lambda>_. stop_k8s ev p)
      | _ \<Rightarrow> thn (present_k8s ev p) (\<lambda>_. start_k8s ev p))"
  by (cases "p_state p") (simp_all add: steps_def)

lemma reader_then_cached:
  assumes "fst (get_k8s ev p s) = Inr (Some d)" and "d \<noteq> []"
  shows "k8s (snd (get_k8s ev p s)) = Some d"
    and "start_k8s ev p s = start_k8s ev p (snd (get_k8s ev p s))"
    and "stop_k8s ev p s = stop_k8s ev p (snd (get_k8s ev p s))"
proof -
  obtain s0 where g: "get_k8s ev p s = (Inr (Some d), s0)"
    using assms(1) by (cases "get_k8s ev p s") simp
  from get_k8s_result[OF assms(1)] show k: "k8s (snd (get_k8s ev p s)) = Some d" .
  from k g assms(2) have g0: "get_k8s ev p s0 = (Inr (Some d), s0)"
    using get_k8s_cached[of s0 ev p] by (simp add: truthy_def)
  from g g0 show "start_k8s ev p s = start_k8s ev p (snd (get_k8s ev p s))"
    by (simp add: start_k8s_def thn_def)
  from g g0 show "stop_k8s ev p s = stop_k8s ev p (snd (get_k8s ev p s))"
    by (simp add: stop_k8s_def thn_def)
qed

text \<open>
  Claim C3, as the code has it. For a non-empty record with a state string, read from the
  cache or looked up by the reader, the decision depends on the target and on the
  lowercased state only; the state \<open>s0\<close> below is the state of the object after the
  reader. For \<open>start_k8s\<close> (targets enabled and present): starting and running are
  no-ops; stopped and stopping set the changed flag and, outside check mode, issue exactly
  one start call, while in check mode no call is issued; any other state is a no-op. For
  \<open>stop_k8s\<close> (target disabled): stopping and stopped are no-ops; starting and running
  set the changed flag and, outside check mode, issue exactly one stop call, while in
  check mode no call is issued; any other state is a no-op. The entry point runs
  \<open>stop_k8s\<close> for disabled and \<open>start_k8s\<close> for enabled and for present, after the
  presence step.
\<close>

theorem start_stop_table:
  assumes "fst (get_k8s ev p s) = Inr (Some d)" and "d \<noteq> []"
    and "map_of d ''state'' = Some (JStr t)"
    and "s0 = snd (get_k8s ev p s)"
  shows
    "(starting_running t \<longrightarrow> start_k8s ev p s = (Inr (Some d), s0))
   \<and> (stopped_stopping t \<and> check_mode p \<longrightarrow>
        start_k8s ev p s = (Inr (Some d), s0\<lparr>changed := True\<rparr>))
   \<and> (stopped_stopping t \<and> \<not> check_mode p \<and> map_of d ''id'' = Some i \<longrightarrow>
        trace (snd (start_k8s ev p s))
          = trace s0 @ [Call ''startKubernetesCluster'' [(''id'', i)]]
        \<and> changed (snd (start_k8s ev p s)))
   \<and> (\<not> starting_running t \<and> \<not> stopped_stopping t \<longrightarrow>
        start_k8s ev p s = (Inr (Some d), s0))
   \<and> (stopped_stopping t \<longrightarrow> stop_k8s ev p s = (Inr (Some d), s0))
   \<and> (starting_running t \<and> check_mode p \<longrightarrow>
        stop_k8s ev p s = (Inr (Some d), s0\<lparr>changed := True\<rparr>))
   \<and> (starting_running t \<and> \<not> check_mode p \<and> map_of d ''id'' = Some i \<longrightarrow>
        trace (snd (stop_k8s ev p s))
          = trace s0 @ [Call ''stopKubernetesCluster'' [(''id'', i)]]
        \<and> changed (snd (stop_k8s ev p s)))
   \<and> (\<not> starting_running t \<and> \<not> stopped_stopping t \<longrightarrow>
        stop_k8s ev p s = (Inr (Some d), s0))
   \<and> (p_state p = Disabled \<longrightarrow>
        steps ev p = thn (present_k8s ev p) (\<lambda>_. stop_k8s ev p))
   \<and> (p_state p = Enabled \<or> p_state p = Present \<longrightarrow>
        steps ev p = thn (present_k8s ev p) (\<lambda>_. start_k8s ev p))"
proof -
  note r = reader_then_cached[OF assms(1,2)]
  have c: "k8s s0 = Some d" using r(1) assms(4) by simp
  note a = c assms(2,3)
  have e: "start_k8s ev p s = start_k8s ev p s0" "stop_k8s ev p s = stop_k8s ev p s0"
    using r(2,3) assms(4) by simp_all
  show ?thesis
    unfolding e
    using start_running[OF a] start_other[OF a] start_stopped_check[OF a]
      start_stopped_call[OF a] stop_stopped[OF a] stop_other[OF a]
      stop_running_check[OF a] stop_running_call[OF a]
    by (auto simp: steps_dispatch)
qed

text \<open>
  The claim as stated fails in check mode: with target enabled and a stopped cluster, the
  run sets the changed flag and issues no start call.
\<close>

theorem start_in_check_mode_issues_no_call:
  "check_mode (demo_params\<lparr>p_state := Enabled, check_mode := True\<rparr>)
   \<and> main (sim_env (Some (demo_cluster ''Stopped'')))
       (demo_params\<lparr>p_state := Enabled, check_mode := True\<rparr>) (init [])
     = (Inr (Some (demo_cluster ''Stopped'' @ [(''config'', JStr ''cfg'')])),
        \<lparr>k8s = Some (demo_cluster ''Stopped'' @ [(''config'', JStr ''cfg'')]),
         version = Some [(''id'', JStr ''v-1''), (''name'', JStr ''v1.27.3'')],
         service_offering = Some [(''id'', JStr ''o-1''), (''name'', JStr ''CH23'')],
         changed = True,
         result = [(''version'', JStr ''v1.27.3''), (''service_offering'', JStr ''CH23'')],
         trace = [Call ''listKubernetesClusters'' [(''name'', JStr ''k8s-cluster-01'')],
           Call ''listKubernetesSupportedVersions'' [],
           Call ''listServiceOfferings'' [],
           Call ''getKubernetesClusterConfig'' [(''id'', JStr ''c-1'')]]\<rparr>)"
  by (simp add: model_defs demo_defs Let_def)

theorem start_stop_table_witness:
  "start_k8s empty_env demo_params (cached (demo_cluster ''Running''))
     = (Inr (Some (demo_cluster ''Running'')), cached (demo_cluster ''Running''))
   \<and> start_k8s empty_env (demo_params\<lparr>check_mode := True\<rparr>) (cached (demo_cluster ''Stopped''))
     = (Inr (Some (demo_cluster ''Stopped'')), (cached (demo_cluster ''Stopped''))\<lparr>changed := True\<rparr>)
   \<and> trace (snd (start_k8s empty_env demo_params (cached (demo_cluster ''Stopping''))))
     = [Call ''startKubernetesCluster'' [(''id'', JStr ''c-1'')]]
   \<and> start_k8s empty_env demo_params (cached (demo_cluster ''Scaling''))
     = (Inr (Some (demo_cluster ''Scaling'')), cached (demo_cluster ''Scaling''))
   \<and> stop_k8s empty_env demo_params (cached (demo_cluster ''Stopped''))
     = (Inr (Some (demo_cluster ''Stopped'')), cached (demo_cluster ''Stopped''))
   \<and> stop_k8s empty_env (demo_params\<lparr>check_mode := True\<rparr>) (cached (demo_cluster ''Running''))
     = (Inr (Some (demo_cluster ''Running'')), (cached (demo_cluster ''Running''))\<lparr>changed := True\<rparr>)
   \<and> trace (snd (stop_k8s empty_env demo_params (cached (demo_cluster ''STARTING''))))
     = [Call ''stopKubernetesCluster'' [(''id'', JStr ''c-1'')]]
   \<and> stop_k8s empty_env demo_params (cached (demo_cluster ''Scaling''))
     = (Inr (Some (demo_cluster ''Scaling'')), cached (demo_cluster ''Scaling''))
   \<and> steps empty_env (demo_params\<lparr>p_state := Disabled\<rparr>)
     = thn (present_k8s empty_env (demo_params\<lparr>p_state := Disabled\<rparr>))
         (\<lambda>_. stop_k8s empty_env (demo_params\<lparr>p_state := Disabled\<rparr>))
   \<and> steps empty_env demo_params
     = thn (present_k8s empty_env demo_params) (\<lambda>_. start_k8s empty_env demo_params)"
proof -
  have r: "get_k8s empty_env q (cached (demo_cluster t))
      = (Inr (Some (demo_cluster t)), cached (demo_cluster t))" for t q
    using get_k8s_cached[of "cached (demo_cluster t)" empty_env q]
    by (simp add: cached_def demo_cluster_def truthy_def)
  have c: "fst (get_k8s empty_env q (cached (demo_cluster t))) = Inr (Some (demo_cluster t))"
    "demo_cluster t \<noteq> []"
    "map_of (demo_cluster t) ''state'' = Some (JStr t)"
    "cached (demo_cluster t) = snd (get_k8s empty_env q (cached (demo_cluster t)))"
    "map_of (demo_cluster t) ''id'' = Some (JStr ''c-1'')"
    "trace (cached (demo_cluster t)) = []" for t q
    by (simp_all add: r) (simp_all add: cached_def demo_cluster_def init_def)
  have g: "starting_running ''Running''" "starting_running ''STARTING''"
    "stopped_stopping ''Stopped''" "stopped_stopping ''Stopping''"
    "\<not> starting_running ''Scaling''" "\<not> stopped_stopping ''Scaling''"
    by (simp_all add: starting_running_def stopped_stopping_def lower_def lower_char_def)
  have p: "\<not> check_mode demo_params" "check_mode (demo_params\<lparr>check_mode := True\<rparr>)"
    "p_state (demo_params\<lparr>p_state := Disabled\<rparr>) = Disabled" "p_state demo_params = Present"
    by (simp_all add: demo_params_def)
  note t = start_stop_table [where ev = empty_env and i = "JStr ''c-1''"]
  from t [where p = demo_params, OF c(1,2,3,4) [where t = "''Running''"]]
    t [where p = "demo_params\<lparr>check_mode := True\<rparr>", OF c(1,2,3,4) [where t = "''Stopped''"]]
    t [where p = demo_params, OF c(1,2,3,4) [where t = "''Stopping''"]]
    t [where p = demo_params, OF c(1,2,3,4) [where t = "''Scaling''"]]
    t [where p = demo_params, OF c(1,2,3,4) [where t = "''Stopped''"]]
    t [where p = "demo_params\<lparr>check_mode := True\<rparr>", OF c(1,2,3,4) [where t = "''Running''"]]
    t [where p = demo_params, OF c(1,2,3,4) [where t = "''STARTING''"]]
    t [where p = "demo_params\<lparr>p_state := Disabled\<rparr>", OF c(1,2,3,4) [where t = "''Running''"]]
  show ?thesis
    using c(5,6) g p by simp
qed

section \<open>Absence\<close>

lemma steps_absent: "p_state p = Absent \<Longrightarrow> steps ev p = absent_k8s ev p"
  by (simp add: steps_def)

lemma absent_no_record:
  assumes "fst (get_k8s ev p s) = Inr k" "\<not> truthy k"
  shows "absent_k8s ev p s = get_k8s ev p s"
  using assms by (cases "get_k8s ev p s") (simp add: absent_k8s_def thn_def ret_def)

lemma absent_check:
  assumes "fst (get_k8s ev p s) = Inr k" "truthy k" "check_mode p"
  shows "absent_k8s ev p s = (Inr k, (snd (get_k8s ev p s))\<lparr>changed := True\<rparr>)"
  using assms
  by (cases "get_k8s ev p s") (simp add: absent_k8s_def thn_def ret_def set_changed_def)

lemma absent_call:
  assumes "fst (get_k8s ev p s) = Inr k" "truthy k" "\<not> check_mode p"
    "map_of (the k) ''id'' = Some i"
  shows "absent_k8s ev p s
           = thn (call_and_poll ev p ''deleteKubernetesCluster'' [(''id'', i)])
               (\<lambda>r. ret (Some r)) ((snd (get_k8s ev p s))\<lparr>changed := True\<rparr>)"
    and "trace (snd (absent_k8s ev p s))
           = trace (snd (get_k8s ev p s)) @ [Call ''deleteKubernetesCluster'' [(''id'', i)]]
         \<and> changed (snd (absent_k8s ev p s))"
proof -
  obtain s0 where g: "get_k8s ev p s = (Inr k, s0)"
    using assms(1) by (cases "get_k8s ev p s") simp
  with assms have e: "absent_k8s ev p s
    = thn (call_and_poll ev p ''deleteKubernetesCluster'' [(''id'', i)]) (\<lambda>r. ret (Some r))
        (s0\<lparr>changed := True\<rparr>)"
    by (simp add: absent_k8s_def thn_def set_changed_def lift_def getitem_def)
  with g show "absent_k8s ev p s
           = thn (call_and_poll ev p ''deleteKubernetesCluster'' [(''id'', i)])
               (\<lambda>r. ret (Some r)) ((snd (get_k8s ev p s))\<lparr>changed := True\<rparr>)"
    by simp
  from e g show "trace (snd (absent_k8s ev p s))
           = trace (snd (get_k8s ev p s)) @ [Call ''deleteKubernetesCluster'' [(''id'', i)]]
         \<and> changed (snd (absent_k8s ev p s))"
    by (simp add: thn_call_and_poll_trace thn_call_and_poll_changed)
qed

lemma keeps_other_absent:
  "keeps (other_than [''listKubernetesClusters'', ''deleteKubernetesCluster''])
     (absent_k8s ev p)"
  unfolding absent_k8s_def
  by (intro keeps_thn keeps_get_k8s keeps_if keeps_set_changed keeps_lift keeps_ret
      keeps_call_and_poll) (simp_all add: other_than_def cmd_of_def)

lemma keeps_other_main_absent:
  assumes "p_state p = Absent"
  shows "keeps (other_than [''listKubernetesClusters'', ''deleteKubernetesCluster''])
     (main ev p)"
  unfolding main_def steps_absent[OF assms]
  by (intro keeps_thn keeps_other_absent keeps_final_check)

text \<open>
  Claim C8, as the code has it. With target absent the entry point runs \<open>absent_k8s\<close> and
  then the final check, and nothing else: every call it issues is a cluster lookup or a
  delete call. When the lookup finds no record, nothing is done beyond the lookup: no
  mutating call, and the changed flag is left as it was. When it finds a record the changed
  flag is set; outside check mode exactly one delete call follows the lookup (the call is
  polled when polling is requested, as \<open>call_and_poll\<close> does), and in check mode no call
  is issued.
\<close>

theorem absent_only_deletes:
  assumes "p_state p = Absent"
  shows "main ev p = thn (absent_k8s ev p) (final_check p)
   \<and> filter (other_than [''listKubernetesClusters'', ''deleteKubernetesCluster''])
        (trace (snd (main ev p s)))
      = filter (other_than [''listKubernetesClusters'', ''deleteKubernetesCluster''])
          (trace s)
   \<and> (fst (get_k8s ev p s) = Inr k \<and> \<not> truthy k \<longrightarrow>
        steps ev p s = get_k8s ev p s
        \<and> changed (snd (steps ev p s)) = changed s
        \<and> filter mutating (trace (snd (steps ev p s))) = filter mutating (trace s))
   \<and> (fst (get_k8s ev p s) = Inr k \<and> truthy k \<and> check_mode p \<longrightarrow>
        steps ev p s = (Inr k, (snd (get_k8s ev p s))\<lparr>changed := True\<rparr>))
   \<and> (fst (get_k8s ev p s) = Inr k \<and> truthy k \<and> \<not> check_mode p
        \<and> map_of (the k) ''id'' = Some i \<longrightarrow>
        steps ev p s
          = thn (call_and_poll ev p ''deleteKubernetesCluster'' [(''id'', i)])
              (\<lambda>r. ret (Some r)) ((snd (get_k8s ev p s))\<lparr>changed := True\<rparr>)
        \<and> trace (snd (steps ev p s))
          = trace (snd (get_k8s ev p s)) @ [Call ''deleteKubernetesCluster'' [(''id'', i)]]
        \<and> changed (snd (steps ev p s))
        \<and> filter mutating (trace (snd (steps ev p s)))
          = filter mutating (trace s) @ [Call ''deleteKubernetesCluster'' [(''id'', i)]])"
proof (intro conjI impI)
  show "main ev p = thn (absent_k8s ev p) (final_check p)"
    by (simp add: main_def steps_absent[OF assms])
next
  show "filter (other_than [''listKubernetesClusters'', ''deleteKubernetesCluster''])
        (trace (snd (main ev p s)))
      = filter (other_than [''listKubernetesClusters'', ''deleteKubernetesCluster''])
          (trace s)"
    by (rule keepsD[OF keeps_other_main_absent[OF assms]])
next
  assume a: "fst (get_k8s ev p s) = Inr k \<and> \<not> truthy k"
  then show e: "steps ev p s = get_k8s ev p s"
    by (simp add: steps_absent[OF assms] absent_no_record)
  show "changed (snd (steps ev p s)) = changed s"
    using quietD[OF quiet_get_k8s, of ev p s] by (simp add: e)
  show "filter mutating (trace (snd (steps ev p s))) = filter mutating (trace s)"
    using quietD[OF quiet_get_k8s, of ev p s] by (simp add: e)
next
  assume "fst (get_k8s ev p s) = Inr k \<and> truthy k \<and> check_mode p"
  then show "steps ev p s = (Inr k, (snd (get_k8s ev p s))\<lparr>changed := True\<rparr>)"
    by (simp add: steps_absent[OF assms] absent_check)
next
  assume a: "fst (get_k8s ev p s) = Inr k \<and> truthy k \<and> \<not> check_mode p
        \<and> map_of (the k) ''id'' = Some i"
  then have c: "trace (snd (absent_k8s ev p s))
           = trace (snd (get_k8s ev p s)) @ [Call ''deleteKubernetesCluster'' [(''id'', i)]]
         \<and> changed (snd (absent_k8s ev p s))"
    using absent_call(2) by blast
  from a show "steps ev p s
          = thn (call_and_poll ev p ''deleteKubernetesCluster'' [(''id'', i)])
              (\<lambda>r. ret (Some r)) ((snd (get_k8s ev p s))\<lparr>changed := True\<rparr>)"
    using absent_call(1)[of ev p s k i] by (simp add: steps_absent[OF assms])
  from c show "trace (snd (steps ev p s))
          = trace (snd (get_k8s ev p s)) @ [Call ''deleteKubernetesCluster'' [(''id'', i)]]"
    by (simp add: steps_absent[OF assms])
  from c show "changed (snd (steps ev p s))"
    by (simp add: steps_absent[OF assms])
  from c show "filter mutating (trace (snd (steps ev p s)))
          = filter mutating (trace s) @ [Call ''deleteKubernetesCluster'' [(''id'', i)]]"
    using quietD[OF quiet_get_k8s, of ev p s]
    by (simp add: steps_absent[OF assms] mutating_def)
qed

text \<open>
  The claim as stated fails in check mode: with target absent and an existing record, the
  run sets the changed flag and issues no delete call.
\<close>

theorem absent_in_check_mode_issues_no_call:
  "p_state (demo_params\<lparr>p_state := Absent, check_mode := True\<rparr>) = Absent
   \<and> main (sim_env (Some (demo_cluster ''Running'')))
       (demo_params\<lparr>p_state := Absent, check_mode := True\<rparr>) (init [])
     = (Inr (Some (demo_cluster ''Running'')),
        \<lparr>k8s = Some (demo_cluster ''Running''), version = None, service_offering = None,
         changed = True, result = [],
         trace = [Call ''listKubernetesClusters'' [(''name'', JStr ''k8s-cluster-01'')]]\<rparr>)"
  by (simp add: model_defs demo_defs Let_def)

theorem absent_only_deletes_witness:
  "steps empty_env (demo_params\<lparr>p_state := Absent\<rparr>) (init [])
     = get_k8s empty_env (demo_params\<lparr>p_state := Absent\<rparr>) (init [])
   \<and> \<not> changed (snd (steps empty_env (demo_params\<lparr>p_state := Absent\<rparr>) (init [])))
   \<and> filter mutating (trace (snd (steps empty_env (demo_params\<lparr>p_state := Absent\<rparr>) (init []))))
      = []
   \<and> steps (sim_env (Some (demo_cluster ''Running'')))
       (demo_params\<lparr>p_state := Absent, check_mode := True\<rparr>) (init [])
     = (Inr (Some (demo_cluster ''Running'')),
        (snd (get_k8s (sim_env (Some (demo_cluster ''Running'')))
          (demo_params\<lparr>p_state := Absent, check_mode := True\<rparr>) (init [])))\<lparr>changed := True\<rparr>)
   \<and> filter mutating (trace (snd (steps (sim_env (Some (demo_cluster ''Running'')))
       (demo_params\<lparr>p_state := Absent\<rparr>) (init []))))
     = [Call ''deleteKubernetesCluster'' [(''id'', JStr ''c-1'')]]
   \<and> filter (other_than [''listKubernetesClusters'', ''deleteKubernetesCluster''])
        (trace (snd (main (sim_env (Some (demo_cluster ''Running'')))
          (demo_params\<lparr>p_state := Absent\<rparr>) (init []))))
      = []"
proof -
  have p: "p_state (demo_params\<lparr>p_state := Absent\<rparr>) = Absent"
    "p_state (demo_params\<lparr>p_state := Absent, check_mode := True\<rparr>) = Absent"
    by simp_all
  have h1: "fst (get_k8s empty_env (demo_params\<lparr>p_state := Absent\<rparr>) (init [])) = Inr None
    \<and> \<not> truthy None"
    by (simp add: model_defs empty_env_def demo_defs)
  have h2: "fst (get_k8s (sim_env (Some (demo_cluster ''Running'')))
          (demo_params\<lparr>p_state := Absent, check_mode := True\<rparr>) (init []))
       = Inr (Some (demo_cluster ''Running'')) \<and> truthy (Some (demo_cluster ''Running''))
     \<and> check_mode (demo_params\<lparr>p_state := Absent, check_mode := True\<rparr>)"
    by (simp add: model_defs demo_defs)
  have h3: "fst (get_k8s (sim_env (Some (demo_cluster ''Running'')))
          (demo_params\<lparr>p_state := Absent\<rparr>) (init []))
       = Inr (Some (demo_cluster ''Running'')) \<and> truthy (Some (demo_cluster ''Running''))
     \<and> \<not> check_mode (demo_params\<lparr>p_state := Absent\<rparr>)
     \<and> map_of (the (Some (demo_cluster ''Running''))) ''id'' = Some (JStr ''c-1'')"
    by (simp add: model_defs demo_defs)
  note a = absent_only_deletes [OF p(1), of empty_env "init []" None "JStr ''c-1''"]
  note b = absent_only_deletes [OF p(2), of "sim_env (Some (demo_cluster ''Running''))"
      "init []" "Some (demo_cluster ''Running'')" "JStr ''c-1''"]
  note c = absent_only_deletes [OF p(1), of "sim_env (Some (demo_cluster ''Running''))"
      "init []" "Some (demo_cluster ''Running'')" "JStr ''c-1''"]
  from a h1 have "steps empty_env (demo_params\<lparr>p_state := Absent\<rparr>) (init [])
     = get_k8s empty_env (demo_params\<lparr>p_state := Absent\<rparr>) (init [])
   \<and> changed (snd (steps empty_env (demo_params\<lparr>p_state := Absent\<rparr>) (init [])))
      = changed (init [])
   \<and> filter mutating (trace (snd (steps empty_env (demo_params\<lparr>p_state := Absent\<rparr>) (init []))))
      = filter mutating (trace (init []))"
    by blast
  moreover have "changed (init []) = False" "filter mutating (trace (init [])) = []"
    by (simp_all add: init_def)
  ultimately have 1: "steps empty_env (demo_params\<lparr>p_state := Absent\<rparr>) (init [])
     = get_k8s empty_env (demo_params\<lparr>p_state := Absent\<rparr>) (init [])
   \<and> \<not> changed (snd (steps empty_env (demo_params\<lparr>p_state := Absent\<rparr>) (init [])))
   \<and> filter mutating (trace (snd (steps empty_env (demo_params\<lparr>p_state := Absent\<rparr>) (init []))))
      = []"
    by auto
  from b h2 have 2: "steps (sim_env (Some (demo_cluster ''Running'')))
       (demo_params\<lparr>p_state := Absent, check_mode := True\<rparr>) (init [])
     = (Inr (Some (demo_cluster ''Running'')),
        (snd (get_k8s (sim_env (Some (demo_cluster ''Running'')))
          (demo_params\<lparr>p_state := Absent, check_mode := True\<rparr>) (init [])))\<lparr>changed := True\<rparr>)"
    by blast
  have i: "filter mutating (trace (init [])) = []"
    "filter (other_than [''listKubernetesClusters'', ''deleteKubernetesCluster''])
       (trace (init [])) = []"
    by (simp_all add: init_def)
  from c h3 have "filter mutating (trace (snd (steps (sim_env (Some (demo_cluster ''Running'')))
       (demo_params\<lparr>p_state := Absent\<rparr>) (init []))))
     = filter mutating (trace (init [])) @ [Call ''deleteKubernetesCluster'' [(''id'', JStr ''c-1'')]]"
    by blast
  then have 3: "filter mutating (trace (snd (steps (sim_env (Some (demo_cluster ''Running'')))
       (demo_params\<lparr>p_state := Absent\<rparr>) (init []))))
     = [Call ''deleteKubernetesCluster'' [(''id'', JStr ''c-1'')]]"
    by (simp only: i append_Nil)
  from c have "filter (other_than [''listKubernetesClusters'', ''deleteKubernetesCluster''])
        (trace (snd (main (sim_env (Some (demo_cluster ''Running'')))
          (demo_params\<lparr>p_state := Absent\<rparr>) (init []))))
      = filter (other_than [''listKubernetesClusters'', ''deleteKubernetesCluster''])
          (trace (init []))"
    by blast
  then have 4: "filter (other_than [''listKubernetesClusters'', ''deleteKubernetesCluster''])
        (trace (snd (main (sim_env (Some (demo_cluster ''Running'')))
          (demo_params\<lparr>p_state := Absent\<rparr>) (init []))))
      = []"
    by (simp only: i)
  from 1 2 3 4 show ?thesis by blast
qed

section \<open>Update: the version group and the scale group\<close>

lemma call_and_poll_state:
  "snd (call_and_poll ev p cmd args s) = s\<lparr>trace := trace s @ [Call cmd args]\<rparr>"
  by (simp add: call_and_poll_def thn_def query_api_def poll_job_def ret_def
      split: sum.splits prod.splits)

lemma version_group_noop:
  "\<not> has_changed args k0 [''kubernetesversionid''] \<Longrightarrow>
   version_group ev p args k0 i s = (Inr k0, s)"
  by (simp add: version_group_def ret_def)


lemma version_group_call:
  "has_changed args k0 [''kubernetesversionid''] \<Longrightarrow> \<not> check_mode p \<Longrightarrow>
   truthy (version s) \<Longrightarrow> map_of (the (version s)) ''id'' = Some vid \<Longrightarrow>
   version_group ev p args k0 i s
     = call_and_poll ev p ''upgradeKubernetesCluster''
         [(''id'', i), (''kubernetesversionid'', vid)] (s\<lparr>changed := True\<rparr>)"
  using get_version_hit[of "s\<lparr>changed := True\<rparr>" "''id''" vid ev p]
  by (simp add: version_group_def thn_def set_changed_def)

lemma scale_group_noop:
  "\<not> has_changed args k1 [''serviceofferingid'', ''size''] \<Longrightarrow>
   scale_group ev p args k1 i s = (Inr k1, s)"
  by (simp add: scale_group_def ret_def)


lemma scale_group_call:
  "has_changed args k1 [''serviceofferingid'', ''size''] \<Longrightarrow> \<not> check_mode p \<Longrightarrow>
   truthy (service_offering s) \<Longrightarrow> map_of (the (service_offering s)) ''id'' = Some oid \<Longrightarrow>
   scale_group ev p args k1 i s
     = call_and_poll ev p ''scaleKubernetesCluster''
         [(''id'', i), (''serviceofferingid'', oid), (''size'', oint (p_size p))]
         (s\<lparr>changed := True\<rparr>)"
  using get_service_offering_hit[of "s\<lparr>changed := True\<rparr>" "''id''" oid ev p]
  by (simp add: scale_group_def thn_def set_changed_def)

lemma resolved_caches:
  assumes v: "fst (get_version ev p ''id'' s) = Inr vid"
    and o: "fst (get_service_offering ev p ''id'' (snd (get_version ev p ''id'' s))) = Inr oid"
  shows "truthy (version (resolved ev p s))"
    "map_of (the (version (resolved ev p s))) ''id'' = Some vid"
    "truthy (service_offering (resolved ev p s))"
    "map_of (the (service_offering (resolved ev p s))) ''id'' = Some oid"
    "k8s (resolved ev p s) = k8s s"
  using get_version_caches[OF v] get_service_offering_caches[OF o]
    get_service_offering_fields[of ev p "''id''" "snd (get_version ev p ''id'' s)"]
    get_version_fields[of ev p "''id''" s]
  by (simp_all add: resolved_def)

lemma resolved_quiet:
  "filter mutating (trace (resolved ev p s)) = filter mutating (trace s)
   \<and> changed (resolved ev p s) = changed s"
  using quietD[OF quiet_get_version, of ev p "''id''" s]
    quietD[OF quiet_get_service_offering, of ev p "''id''" "snd (get_version ev p ''id'' s)"]
  by (simp add: resolved_def)

lemma update_k8s_groups:
  assumes "k8s s = Some d" "d \<noteq> []" "map_of d ''id'' = Some i"
    and v: "fst (get_version ev p ''id'' s) = Inr vid"
    and o: "fst (get_service_offering ev p ''id'' (snd (get_version ev p ''id'' s))) = Inr oid"
  shows "update_k8s ev p s =
     thn (version_group ev p (update_args p i vid oid) d i) (\<lambda>k1.
     thn (scale_group ev p (update_args p i vid oid) k1 i) (\<lambda>k2. ret (Some k2)))
       (resolved ev p s)"
  unfolding resolved_def by (rule update_k8s_resolved[OF assms])

text \<open>
  Claim C2, as the code has it. Outside check mode, for a cached record with an identifier
  and with the version and the offering resolved (which issues no mutating call): when
  neither group differs from the record nothing is issued; when only the offering or the
  size differs, exactly one scale call is issued; when the version differs, the upgrade
  call is issued first and the scale group is then compared with the record that the
  upgrade returned: no scale call follows when that record agrees on offering and size,
  and the scale call follows the upgrade call when it does not.
\<close>

theorem update_groups:
  assumes "\<not> check_mode p"
    and "k8s s = Some d" and "d \<noteq> []" and "map_of d ''id'' = Some i"
    and "fst (get_version ev p ''id'' s) = Inr vid"
    and "fst (get_service_offering ev p ''id'' (snd (get_version ev p ''id'' s))) = Inr oid"
  shows
    "filter mutating (trace (resolved ev p s)) = filter mutating (trace s)
   \<and> (\<not> has_changed (update_args p i vid oid) d [''kubernetesversionid'']
      \<and> \<not> has_changed (update_args p i vid oid) d [''serviceofferingid'', ''size'']
      \<longrightarrow> update_k8s ev p s = (Inr (Some d), resolved ev p s))
   \<and> (\<not> has_changed (update_args p i vid oid) d [''kubernetesversionid'']
      \<and> has_changed (update_args p i vid oid) d [''serviceofferingid'', ''size'']
      \<longrightarrow> trace (snd (update_k8s ev p s))
            = trace (resolved ev p s) @ [scale_call p i oid])
   \<and> (has_changed (update_args p i vid oid) d [''kubernetesversionid'']
      \<and> fst (call_and_poll ev p ''upgradeKubernetesCluster''
               [(''id'', i), (''kubernetesversionid'', vid)]
               ((resolved ev p s)\<lparr>changed := True\<rparr>)) = Inr k1
      \<and> \<not> has_changed (update_args p i vid oid) k1 [''serviceofferingid'', ''size'']
      \<longrightarrow> trace (snd (update_k8s ev p s))
            = trace (resolved ev p s) @ [upgrade_call i vid]
          \<and> fst (update_k8s ev p s) = Inr (Some k1))
   \<and> (has_changed (update_args p i vid oid) d [''kubernetesversionid'']
      \<and> fst (call_and_poll ev p ''upgradeKubernetesCluster''
               [(''id'', i), (''kubernetesversionid'', vid)]
               ((resolved ev p s)\<lparr>changed := True\<rparr>)) = Inr k1
      \<and> has_changed (update_args p i vid oid) k1 [''serviceofferingid'', ''size'']
      \<longrightarrow> trace (snd (update_k8s ev p s))
            = trace (resolved ev p s) @ [upgrade_call i vid, scale_call p i oid])"
proof -
  let ?r = "resolved ev p s"
  let ?a = "update_args p i vid oid"
  note u = update_k8s_groups[OF assms(2-6)]
  note c = resolved_caches[OF assms(5,6)]
  show ?thesis
  proof (intro conjI impI)
    show "filter mutating (trace ?r) = filter mutating (trace s)"
      using resolved_quiet[of ev p s] by simp
  next
    assume "\<not> has_changed ?a d [''kubernetesversionid'']
      \<and> \<not> has_changed ?a d [''serviceofferingid'', ''size'']"
    then show "update_k8s ev p s = (Inr (Some d), ?r)"
      unfolding u by (simp add: thn_def version_group_noop scale_group_noop ret_def)
  next
    assume h: "\<not> has_changed ?a d [''kubernetesversionid'']
      \<and> has_changed ?a d [''serviceofferingid'', ''size'']"
    then have "update_k8s ev p s
      = thn (call_and_poll ev p ''scaleKubernetesCluster''
         [(''id'', i), (''serviceofferingid'', oid), (''size'', oint (p_size p))])
         (\<lambda>k2. ret (Some k2)) (?r\<lparr>changed := True\<rparr>)"
      unfolding u using scale_group_call[OF _ assms(1) c(3,4), where args = ?a and ?k1.0 = d and i = i]
      by (simp add: thn_def version_group_noop)
    then show "trace (snd (update_k8s ev p s)) = trace ?r @ [scale_call p i oid]"
      by (simp add: thn_call_and_poll_trace scale_call_def)
  next
    assume h: "has_changed ?a d [''kubernetesversionid'']
      \<and> fst (call_and_poll ev p ''upgradeKubernetesCluster''
               [(''id'', i), (''kubernetesversionid'', vid)]
               (?r\<lparr>changed := True\<rparr>)) = Inr k1
      \<and> \<not> has_changed ?a k1 [''serviceofferingid'', ''size'']"
    let ?s3 = "(?r\<lparr>changed := True\<rparr>)\<lparr>trace := trace ?r @ [upgrade_call i vid]\<rparr>"
    from h have cp: "call_and_poll ev p ''upgradeKubernetesCluster''
               [(''id'', i), (''kubernetesversionid'', vid)] (?r\<lparr>changed := True\<rparr>)
       = (Inr k1, ?s3)"
      using call_and_poll_state[of ev p "''upgradeKubernetesCluster''"
          "[(''id'', i), (''kubernetesversionid'', vid)]" "?r\<lparr>changed := True\<rparr>"]
      by (cases "call_and_poll ev p ''upgradeKubernetesCluster''
               [(''id'', i), (''kubernetesversionid'', vid)] (?r\<lparr>changed := True\<rparr>)")
         (simp add: upgrade_call_def)
    from h have r: "update_k8s ev p s = (Inr (Some k1), ?s3)"
      unfolding u
      using version_group_call[OF _ assms(1) c(1,2), where args = ?a and ?k0.0 = d and i = i] cp
      by (simp add: thn_def scale_group_noop ret_def)
    from r show "trace (snd (update_k8s ev p s)) = trace ?r @ [upgrade_call i vid]"
      by simp
    from r show "fst (update_k8s ev p s) = Inr (Some k1)"
      by simp
  next
    assume h: "has_changed ?a d [''kubernetesversionid'']
      \<and> fst (call_and_poll ev p ''upgradeKubernetesCluster''
               [(''id'', i), (''kubernetesversionid'', vid)]
               (?r\<lparr>changed := True\<rparr>)) = Inr k1
      \<and> has_changed ?a k1 [''serviceofferingid'', ''size'']"
    let ?s3 = "(?r\<lparr>changed := True\<rparr>)\<lparr>trace := trace ?r @ [upgrade_call i vid]\<rparr>"
    from h have cp: "call_and_poll ev p ''upgradeKubernetesCluster''
               [(''id'', i), (''kubernetesversionid'', vid)] (?r\<lparr>changed := True\<rparr>)
       = (Inr k1, ?s3)"
      using call_and_poll_state[of ev p "''upgradeKubernetesCluster''"
          "[(''id'', i), (''kubernetesversionid'', vid)]" "?r\<lparr>changed := True\<rparr>"]
      by (cases "call_and_poll ev p ''upgradeKubernetesCluster''
               [(''id'', i), (''kubernetesversionid'', vid)] (?r\<lparr>changed := True\<rparr>)")
         (simp add: upgrade_call_def)
    have c3: "truthy (service_offering ?s3)"
      "map_of (the (service_offering ?s3)) ''id'' = Some oid"
      using c(3,4) by simp_all
    from h have "update_k8s ev p s
      = thn (call_and_poll ev p ''scaleKubernetesCluster''
         [(''id'', i), (''serviceofferingid'', oid), (''size'', oint (p_size p))])
         (\<lambda>k2. ret (Some k2)) (?s3\<lparr>changed := True\<rparr>)"
      unfolding u using version_group_call[OF _ assms(1) c(1,2), where args = ?a and ?k0.0 = d and i = i] cp
        scale_group_call[OF _ assms(1) c3, where args = ?a and ?k1.0 = k1 and i = i]
      by (simp add: thn_def)
    then show "trace (snd (update_k8s ev p s))
            = trace ?r @ [upgrade_call i vid, scale_call p i oid]"
      by (simp add: thn_call_and_poll_trace scale_call_def)
  qed
qed

text \<open>
  The claim as stated fails without polling: the record differs from the desired values
  in the version only, yet the upgrade call is followed by a scale call, because the scale
  group is compared with the job response that the unpolled upgrade returned.
\<close>

theorem unpolled_upgrade_is_followed_by_scale:
  "has_changed
      (update_args (demo_params\<lparr>p_version := Some ''v1.28.4'', p_poll_async := False\<rparr>)
         (JStr ''c-1'') (JStr ''v-2'') (JStr ''o-1''))
      (demo_cluster ''Running'') [''kubernetesversionid'']
   \<and> \<not> has_changed
      (update_args (demo_params\<lparr>p_version := Some ''v1.28.4'', p_poll_async := False\<rparr>)
         (JStr ''c-1'') (JStr ''v-2'') (JStr ''o-1''))
      (demo_cluster ''Running'') [''serviceofferingid'', ''size'']
   \<and> update_k8s (sim_env (Some (demo_cluster ''Running'')))
       (demo_params\<lparr>p_version := Some ''v1.28.4'', p_poll_async := False\<rparr>) (init [])
     = (Inr (Some [(''jobid'', JStr ''j-1'')]),
        \<lparr>k8s = Some (demo_cluster ''Running''),
         version = Some [(''id'', JStr ''v-2''), (''name'', JStr ''v1.28.4'')],
         service_offering = Some [(''id'', JStr ''o-1''), (''name'', JStr ''CH23'')],
         changed = True,
         result = [(''version'', JStr ''v1.28.4''), (''service_offering'', JStr ''CH23'')],
         trace = [Call ''listKubernetesClusters'' [(''name'', JStr ''k8s-cluster-01'')],
           Call ''listKubernetesSupportedVersions'' [],
           Call ''listServiceOfferings'' [],
           Call ''upgradeKubernetesCluster''
             [(''id'', JStr ''c-1''), (''kubernetesversionid'', JStr ''v-2'')],
           Call ''scaleKubernetesCluster''
             [(''id'', JStr ''c-1''), (''serviceofferingid'', JStr ''o-1''),
              (''size'', JInt 4)]]\<rparr>)"
  by (simp add: model_defs demo_defs Let_def)


theorem update_groups_witness:
  "update_k8s (sim_env (Some (demo_cluster ''Running''))) demo_params
       (cached (demo_cluster ''Running''))
     = (Inr (Some (demo_cluster ''Running'')),
        resolved (sim_env (Some (demo_cluster ''Running''))) demo_params
          (cached (demo_cluster ''Running'')))
   \<and> trace (snd (update_k8s (sim_env (Some (demo_cluster ''Running'')))
        (demo_params\<lparr>p_size := Some 5\<rparr>) (cached (demo_cluster ''Running''))))
     = [Call ''listKubernetesSupportedVersions'' [], Call ''listServiceOfferings'' [],
        scale_call (demo_params\<lparr>p_size := Some 5\<rparr>) (JStr ''c-1'') (JStr ''o-1'')]
   \<and> trace (snd (update_k8s (sim_env (Some (demo_cluster ''Running'')))
        (demo_params\<lparr>p_version := Some ''v1.28.4''\<rparr>) (cached (demo_cluster ''Running''))))
     = [Call ''listKubernetesSupportedVersions'' [], Call ''listServiceOfferings'' [],
        upgrade_call (JStr ''c-1'') (JStr ''v-2'')]
   \<and> trace (snd (update_k8s (sim_env (Some (demo_cluster ''Running'')))
        (demo_params\<lparr>p_version := Some ''v1.28.4'', p_size := Some 5\<rparr>)
        (cached (demo_cluster ''Running''))))
     = [Call ''listKubernetesSupportedVersions'' [], Call ''listServiceOfferings'' [],
        upgrade_call (JStr ''c-1'') (JStr ''v-2''),
        scale_call (demo_params\<lparr>p_version := Some ''v1.28.4'', p_size := Some 5\<rparr>)
          (JStr ''c-1'') (JStr ''o-1'')]"
proof -
  let ?E = "sim_env (Some (demo_cluster ''Running''))"
  let ?s = "cached (demo_cluster ''Running'')"
  let ?P5 = "demo_params\<lparr>p_size := Some 5\<rparr>"
  let ?Pv = "demo_params\<lparr>p_version := Some ''v1.28.4''\<rparr>"
  let ?Pvs = "demo_params\<lparr>p_version := Some ''v1.28.4'', p_size := Some 5\<rparr>"
  have nc: "\<not> check_mode demo_params" "\<not> check_mode ?P5" "\<not> check_mode ?Pv"
    "\<not> check_mode ?Pvs"
    by (simp_all add: demo_params_def)
  have k: "k8s ?s = Some (demo_cluster ''Running'')" "demo_cluster ''Running'' \<noteq> []"
    "map_of (demo_cluster ''Running'') ''id'' = Some (JStr ''c-1'')"
    by (simp_all add: cached_def demo_cluster_def)
  have v1: "fst (get_version ?E demo_params ''id'' ?s) = Inr (JStr ''v-1'')"
    "fst (get_version ?E ?P5 ''id'' ?s) = Inr (JStr ''v-1'')"
    "fst (get_version ?E ?Pv ''id'' ?s) = Inr (JStr ''v-2'')"
    "fst (get_version ?E ?Pvs ''id'' ?s) = Inr (JStr ''v-2'')"
    by (simp_all add: model_defs demo_defs cached_def)
  have o1: "fst (get_service_offering ?E demo_params ''id''
        (snd (get_version ?E demo_params ''id'' ?s))) = Inr (JStr ''o-1'')"
    "fst (get_service_offering ?E ?P5 ''id'' (snd (get_version ?E ?P5 ''id'' ?s)))
       = Inr (JStr ''o-1'')"
    "fst (get_service_offering ?E ?Pv ''id'' (snd (get_version ?E ?Pv ''id'' ?s)))
       = Inr (JStr ''o-1'')"
    "fst (get_service_offering ?E ?Pvs ''id'' (snd (get_version ?E ?Pvs ''id'' ?s)))
       = Inr (JStr ''o-1'')"
    by (simp_all add: model_defs demo_defs cached_def)
  have tr: "trace (resolved ?E ?P5 ?s)
       = [Call ''listKubernetesSupportedVersions'' [], Call ''listServiceOfferings'' []]"
    "trace (resolved ?E ?Pv ?s)
       = [Call ''listKubernetesSupportedVersions'' [], Call ''listServiceOfferings'' []]"
    "trace (resolved ?E ?Pvs ?s)
       = [Call ''listKubernetesSupportedVersions'' [], Call ''listServiceOfferings'' []]"
    by (simp_all add: resolved_def model_defs demo_defs cached_def)
  have ga: "\<not> has_changed (update_args demo_params (JStr ''c-1'') (JStr ''v-1'') (JStr ''o-1''))
        (demo_cluster ''Running'') [''kubernetesversionid'']
      \<and> \<not> has_changed (update_args demo_params (JStr ''c-1'') (JStr ''v-1'') (JStr ''o-1''))
        (demo_cluster ''Running'') [''serviceofferingid'', ''size'']"
    by (simp add: model_defs demo_defs)
  have gb: "\<not> has_changed (update_args ?P5 (JStr ''c-1'') (JStr ''v-1'') (JStr ''o-1''))
        (demo_cluster ''Running'') [''kubernetesversionid'']
      \<and> has_changed (update_args ?P5 (JStr ''c-1'') (JStr ''v-1'') (JStr ''o-1''))
        (demo_cluster ''Running'') [''serviceofferingid'', ''size'']"
    by (simp add: model_defs demo_defs)
  have gc: "has_changed (update_args ?Pv (JStr ''c-1'') (JStr ''v-2'') (JStr ''o-1''))
        (demo_cluster ''Running'') [''kubernetesversionid'']
      \<and> fst (call_and_poll ?E ?Pv ''upgradeKubernetesCluster''
               [(''id'', JStr ''c-1''), (''kubernetesversionid'', JStr ''v-2'')]
               ((resolved ?E ?Pv ?s)\<lparr>changed := True\<rparr>)) = Inr upgraded_cluster
      \<and> \<not> has_changed (update_args ?Pv (JStr ''c-1'') (JStr ''v-2'') (JStr ''o-1''))
          upgraded_cluster [''serviceofferingid'', ''size'']"
    by (simp add: resolved_def model_defs demo_defs cached_def upgraded_cluster_def)
  have gd: "has_changed (update_args ?Pvs (JStr ''c-1'') (JStr ''v-2'') (JStr ''o-1''))
        (demo_cluster ''Running'') [''kubernetesversionid'']
      \<and> fst (call_and_poll ?E ?Pvs ''upgradeKubernetesCluster''
               [(''id'', JStr ''c-1''), (''kubernetesversionid'', JStr ''v-2'')]
               ((resolved ?E ?Pvs ?s)\<lparr>changed := True\<rparr>)) = Inr upgraded_cluster
      \<and> has_changed (update_args ?Pvs (JStr ''c-1'') (JStr ''v-2'') (JStr ''o-1''))
          upgraded_cluster [''serviceofferingid'', ''size'']"
    by (simp add: resolved_def model_defs demo_defs cached_def upgraded_cluster_def)
  from update_groups [OF nc(1) k v1(1) o1(1), of upgraded_cluster] ga
  have 1: "update_k8s ?E demo_params ?s = (Inr (Some (demo_cluster ''Running'')),
        resolved ?E demo_params ?s)"
    by blast
  from update_groups [OF nc(2) k v1(2) o1(2), of upgraded_cluster] gb
  have "trace (snd (update_k8s ?E ?P5 ?s))
     = trace (resolved ?E ?P5 ?s) @ [scale_call ?P5 (JStr ''c-1'') (JStr ''o-1'')]"
    by blast
  then have 2: "trace (snd (update_k8s ?E ?P5 ?s))
     = [Call ''listKubernetesSupportedVersions'' [], Call ''listServiceOfferings'' [],
        scale_call ?P5 (JStr ''c-1'') (JStr ''o-1'')]"
    by (simp only: tr append.simps)
  from update_groups [OF nc(3) k v1(3) o1(3), of upgraded_cluster] gc
  have "trace (snd (update_k8s ?E ?Pv ?s))
     = trace (resolved ?E ?Pv ?s) @ [upgrade_call (JStr ''c-1'') (JStr ''v-2'')]"
    by blast
  then have 3: "trace (snd (update_k8s ?E ?Pv ?s))
     = [Call ''listKubernetesSupportedVersions'' [], Call ''listServiceOfferings'' [],
        upgrade_call (JStr ''c-1'') (JStr ''v-2'')]"
    by (simp only: tr append.simps)
  from update_groups [OF nc(4) k v1(4) o1(4), of upgraded_cluster] gd
  have "trace (snd (update_k8s ?E ?Pvs ?s))
     = trace (resolved ?E ?Pvs ?s) @ [upgrade_call (JStr ''c-1'') (JStr ''v-2''),
         scale_call ?Pvs (JStr ''c-1'') (JStr ''o-1'')]"
    by blast
  then have 4: "trace (snd (update_k8s ?E ?Pvs ?s))
     = [Call ''listKubernetesSupportedVersions'' [], Call ''listServiceOfferings'' [],
        upgrade_call (JStr ''c-1'') (JStr ''v-2''),
        scale_call ?Pvs (JStr ''c-1'') (JStr ''o-1'')]"
    by (simp only: tr append.simps)
  from 1 2 3 4 show ?thesis by blast
qed

section \<open>Check mode\<close>







section \<open>Creation\<close>

lemma create_k8s_call:
  assumes "\<not> check_mode p" "missing_params p = []"
    and "e_get_account ev = Inr a" "e_get_domain ev = Inr dm" "e_get_network ev = Inr n"
      "e_get_project ev = Inr pr" "e_get_zone ev = Inr z"
    and v: "fst (get_version ev p ''id'' s) = Inr vid"
    and o: "fst (get_service_offering ev p ''id'' (snd (get_version ev p ''id'' s))) = Inr oid"
  shows "create_k8s ev p s
    = thn (call_and_poll ev p ''createKubernetesCluster''
            (create_args p a dm vid n pr oid z)) (\<lambda>r. ret (Some r))
        ((resolved ev p s)\<lparr>changed := True\<rparr>)"
proof -
  obtain s1 where v': "get_version ev p ''id'' s = (Inr vid, s1)"
    using v by (cases "get_version ev p ''id'' s") simp
  obtain s2 where o': "get_service_offering ev p ''id'' s1 = (Inr oid, s2)"
    using o v' by (cases "get_service_offering ev p ''id'' s1") simp
  have r: "resolved ev p s = s2" by (simp add: resolved_def v' o')
  show ?thesis
    unfolding create_k8s_def Let_def r
    using assms(1-7) v' o'
    by (simp add: thn_def fail_on_missing_params_def ret_def lift_def set_changed_def)
qed

lemma present_without_record:
  assumes "fst (get_k8s ev p s) = Inr k" "\<not> truthy k"
  shows "present_k8s ev p s
    = thn (create_k8s ev p)
        (\<lambda>k'. if truthy k' then thn (set_k8s k') (\<lambda>_. k8s_config ev p) else ret k')
        (snd (get_k8s ev p s))"
  using assms by (cases "get_k8s ev p s") (simp add: present_k8s_def thn_def)

lemma quiet_after_presence:
  "quiet (if truthy k' then thn (set_k8s k') (\<lambda>_. k8s_config ev p) else ret k')"
  by (intro quiet_if quiet_thn quiet_set_k8s quiet_k8s_config quiet_ret)

lemma keeps_create_after_presence:
  "keeps is_create (if truthy k' then thn (set_k8s k') (\<lambda>_. k8s_config ev p) else ret k')"
  by (intro keeps_if keeps_thn keeps_set_k8s keeps_k8s_config keeps_ret)
     (simp_all add: is_create_def cmd_of_def)

text \<open>
  Claim C5, as the code has it. Outside check mode, when the lookup finds no record, every
  create-required parameter is set (non-empty, and a size other than zero) and every
  reference resolves, the presence step issues exactly one mutating call, the create call
  with the resolved arguments, and sets the changed flag; for every target other than
  absent, the whole invocation issues exactly one create call. When the docker registry
  block is omitted, the three registry arguments of that call are None.
\<close>

theorem create_when_no_record:
  assumes "\<not> check_mode p" and "missing_params p = []"
    and "fst (get_k8s ev p s) = Inr k" and "\<not> truthy k"
    and "e_get_account ev = Inr a" and "e_get_domain ev = Inr dm"
    and "e_get_network ev = Inr n" and "e_get_project ev = Inr pr"
    and "e_get_zone ev = Inr z"
    and "fst (get_version ev p ''id'' (snd (get_k8s ev p s))) = Inr vid"
    and "fst (get_service_offering ev p ''id''
           (snd (get_version ev p ''id'' (snd (get_k8s ev p s))))) = Inr oid"
  shows "filter mutating (trace (snd (present_k8s ev p s)))
      = filter mutating (trace s)
          @ [Call ''createKubernetesCluster'' (create_args p a dm vid n pr oid z)]
   \<and> changed (snd (present_k8s ev p s))
   \<and> (p_state p \<noteq> Absent \<longrightarrow>
        filter is_create (trace (snd (main ev p s)))
          = filter is_create (trace s)
              @ [Call ''createKubernetesCluster'' (create_args p a dm vid n pr oid z)])
   \<and> (p_docker_registry p = None \<longrightarrow>
        map_of (create_args p a dm vid n pr oid z) ''dockerregistryurl'' = Some JNone
        \<and> map_of (create_args p a dm vid n pr oid z) ''dockerregistryusername'' = Some JNone
        \<and> map_of (create_args p a dm vid n pr oid z) ''dockerregistrypassword'' = Some JNone)"
proof -
  let ?s0 = "snd (get_k8s ev p s)"
  let ?c = "Call ''createKubernetesCluster'' (create_args p a dm vid n pr oid z)"
  note cr = create_k8s_call[OF assms(1,2,5-11)]
  have tr: "trace (snd (create_k8s ev p ?s0)) = trace (resolved ev p ?s0) @ [?c]"
    unfolding cr by (simp add: thn_call_and_poll_trace)
  have ch: "changed (snd (create_k8s ev p ?s0))"
    unfolding cr by (simp add: thn_call_and_poll_changed)
  note pr = present_without_record[OF assms(3,4)]
  have m0: "filter mutating (trace (resolved ev p ?s0)) = filter mutating (trace s)"
    using resolved_quiet[of ev p ?s0] quietD[OF quiet_get_k8s, of ev p s] by simp
  have c0: "filter is_create (trace (resolved ev p ?s0)) = filter is_create (trace s)"
    using keepsD[OF keeps_get_version, of is_create ev p "''id''" ?s0]
      keepsD[OF keeps_get_service_offering, of is_create ev p "''id''"
        "snd (get_version ev p ''id'' ?s0)"]
      keepsD[OF keeps_get_k8s, of is_create ev p s]
    by (simp add: resolved_def is_create_def cmd_of_def)
  have 1: "filter mutating (trace (snd (present_k8s ev p s))) = filter mutating (trace s) @ [?c]"
    unfolding pr thn_keeps_right[OF quiet_keeps[OF quiet_after_presence]]
    by (simp add: tr m0 mutating_def)
  have 2: "changed (snd (present_k8s ev p s))"
    unfolding pr thn_changed_right[OF quiet_after_presence] by (rule ch)
  have 3: "filter is_create (trace (snd (present_k8s ev p s)))
      = filter is_create (trace s) @ [?c]"
    unfolding pr thn_keeps_right[OF keeps_create_after_presence]
    by (simp add: tr c0 is_create_def cmd_of_def)
  have 4: "filter is_create (trace (snd (main ev p s))) = filter is_create (trace s) @ [?c]"
    if "p_state p \<noteq> Absent"
  proof -
    have "filter is_create (trace (snd (main ev p s)))
      = filter is_create (trace (snd (present_k8s ev p s)))"
      unfolding main_def thn_keeps_right[OF keeps_final_check] steps_def using that
      by (simp add: thn_keeps_right keeps_create_stop keeps_create_start)
    with 3 show ?thesis by simp
  qed
  have 5: "map_of (create_args p a dm vid n pr oid z) ''dockerregistryurl'' = Some JNone
        \<and> map_of (create_args p a dm vid n pr oid z) ''dockerregistryusername'' = Some JNone
        \<and> map_of (create_args p a dm vid n pr oid z) ''dockerregistrypassword'' = Some JNone"
    if "p_docker_registry p = None"
    using that by (simp add: create_args_def registry_of_def ostr_def)
  from 1 2 4 5 show ?thesis by blast
qed

text \<open>
  The claim as stated fails in check mode: with target present, no record and every
  required parameter set, the run sets the changed flag and issues no create call.
\<close>

theorem create_in_check_mode_issues_no_call:
  "missing_params (demo_params\<lparr>check_mode := True\<rparr>) = []
   \<and> p_state (demo_params\<lparr>check_mode := True\<rparr>) = Present
   \<and> main (sim_env None) (demo_params\<lparr>check_mode := True\<rparr>) (init [])
     = (Inr None,
        \<lparr>k8s = None,
         version = Some [(''id'', JStr ''v-1''), (''name'', JStr ''v1.27.3'')],
         service_offering = Some [(''id'', JStr ''o-1''), (''name'', JStr ''CH23'')],
         changed = True,
         result = [(''version'', JStr ''v1.27.3''), (''service_offering'', JStr ''CH23'')],
         trace = [Call ''listKubernetesClusters'' [(''name'', JStr ''k8s-cluster-01'')],
           Call ''listKubernetesSupportedVersions'' [],
           Call ''listServiceOfferings'' [],
           Call ''listKubernetesClusters'' [(''name'', JStr ''k8s-cluster-01'')]]\<rparr>)"
  by (simp add: model_defs demo_defs Let_def)


theorem create_when_no_record_witness:
  "filter mutating (trace (snd (present_k8s (sim_env None) demo_params (init []))))
     = [Call ''createKubernetesCluster''
          (create_args demo_params JNone JNone (JStr ''v-1'') JNone JNone (JStr ''o-1'')
             (JStr ''z-1''))]
   \<and> changed (snd (present_k8s (sim_env None) demo_params (init [])))
   \<and> filter is_create (trace (snd (main (sim_env None) demo_params (init []))))
     = [Call ''createKubernetesCluster''
          (create_args demo_params JNone JNone (JStr ''v-1'') JNone JNone (JStr ''o-1'')
             (JStr ''z-1''))]
   \<and> map_of (create_args demo_params JNone JNone (JStr ''v-1'') JNone JNone (JStr ''o-1'')
        (JStr ''z-1'')) ''dockerregistryurl'' = Some JNone
   \<and> map_of (create_args demo_params JNone JNone (JStr ''v-1'') JNone JNone (JStr ''o-1'')
        (JStr ''z-1'')) ''dockerregistryusername'' = Some JNone
   \<and> map_of (create_args demo_params JNone JNone (JStr ''v-1'') JNone JNone (JStr ''o-1'')
        (JStr ''z-1'')) ''dockerregistrypassword'' = Some JNone"
proof -
  let ?E = "sim_env None"
  have h: "\<not> check_mode demo_params" "missing_params demo_params = []"
    "p_state demo_params \<noteq> Absent" "p_docker_registry demo_params = None"
    by (simp_all add: demo_params_def missing_params_def)
  have g: "fst (get_k8s ?E demo_params (init [])) = Inr None" "\<not> truthy None"
    by (simp_all add: model_defs demo_defs)
  have e: "e_get_account ?E = Inr JNone" "e_get_domain ?E = Inr JNone"
    "e_get_network ?E = Inr JNone" "e_get_project ?E = Inr JNone"
    "e_get_zone ?E = Inr (JStr ''z-1'')"
    by (simp_all add: sim_env_def)
  have v: "fst (get_version ?E demo_params ''id'' (snd (get_k8s ?E demo_params (init []))))
      = Inr (JStr ''v-1'')"
    by (simp add: model_defs demo_defs)
  have o: "fst (get_service_offering ?E demo_params ''id''
       (snd (get_version ?E demo_params ''id'' (snd (get_k8s ?E demo_params (init []))))))
      = Inr (JStr ''o-1'')"
    by (simp add: model_defs demo_defs)
  have i: "filter mutating (trace (init [])) = []" "filter is_create (trace (init [])) = []"
    by (simp_all add: init_def)
  from create_when_no_record [OF h(1,2) g e v o] h(3,4) i show ?thesis
    by simp
qed

section \<open>Idempotence\<close>














end
